theory Spec2Isabelle
  imports Complex_Main "HOL-Library.AList" "HOL-Library.List_Lexorder" "HOL-Library.Char_ord"
begin

section \<open>Numbers and positions\<close>

text \<open>
  JavaScript numbers are modelled as real numbers: every arithmetic operation of the
  source is taken exactly, without the rounding of IEEE doubles and without NaN or the
  infinities. A nullable number (\<open>number | null\<close>) is a \<open>real option\<close>.
\<close>

text \<open>\<open>interface GpsPosition\<close> of the geolocation hook (the element type of a recording).\<close>

record GpsPosition =
  latitude :: real
  longitude :: real
  elevation_meters :: "real option"
  accuracy_meters :: "real option"
  speed_mps :: "real option"
  timestamp :: string

text \<open>\<open>Math.round\<close>: the nearest integer, a tie going towards plus infinity.\<close>

definition Math_round :: "real \<Rightarrow> int" where
  "Math_round x = \<lfloor>x + 1 / 2\<rfloor>"

section \<open>utils/distance.ts: elevation gain and loss\<close>

record Elevation =
  gain :: real
  loss :: real

text \<open>\<open>.filter((e): e is number => e !== null)\<close> after \<open>.map((p) => p.elevation_meters)\<close>.\<close>

fun non_null :: "'a option list \<Rightarrow> 'a list" where
  "non_null [] = []"
| "non_null (None # es) = non_null es"
| "non_null (Some e # es) = e # non_null es"

text \<open>The body of the \<open>for (let i = 1; i < elevations.length; i++)\<close> loop.\<close>

definition elevation_step :: "real list \<Rightarrow> nat \<Rightarrow> Elevation \<Rightarrow> Elevation" where
  "elevation_step elevations i acc =
     (let diff = elevations ! i - elevations ! (i - 1)
      in if diff > 0 then acc\<lparr>gain := gain acc + diff\<rparr>
         else acc\<lparr>loss := loss acc + \<bar>diff\<bar>\<rparr>)"

definition calculateElevation :: "GpsPosition list \<Rightarrow> Elevation" where
  "calculateElevation points =
     (let elevations = non_null (map elevation_meters points)
      in if length elevations < 2 then \<lparr>gain = 0, loss = 0\<rparr>
         else fold (elevation_step elevations) [1..<length elevations] \<lparr>gain = 0, loss = 0\<rparr>)"





section \<open>utils/calories.ts\<close>

datatype SportType = running | cycling | walking | hiking | swimming | other

text \<open>\<open>const MET_VALUES: Record<SportType, number>\<close>.\<close>

fun MET_VALUES :: "SportType \<Rightarrow> real" where
  "MET_VALUES running = 98 / 10"
| "MET_VALUES cycling = 75 / 10"
| "MET_VALUES walking = 35 / 10"
| "MET_VALUES hiking = 6"
| "MET_VALUES swimming = 6"
| "MET_VALUES other = 5"

text \<open>\<open>a || b\<close> on numbers: \<open>b\<close> when \<open>a\<close> is falsy, that is zero.\<close>

definition or_number :: "real \<Rightarrow> real \<Rightarrow> real" where
  "or_number a b = (if a = 0 then b else a)"

definition estimateCalories :: "SportType \<Rightarrow> real \<Rightarrow> real \<Rightarrow> int" where
  "estimateCalories sportType durationSeconds weightKg =
     (let met = or_number (MET_VALUES sportType) (MET_VALUES other);
          durationHours = durationSeconds / 3600
      in Math_round (met * weightKg * durationHours))"

definition estimateCaloriesWithDistance :: "SportType \<Rightarrow> real \<Rightarrow> real \<Rightarrow> real \<Rightarrow> int" where
  "estimateCaloriesWithDistance sportType distanceMeters durationSeconds weightKg =
     (if sportType = running \<or> sportType = walking then
        (let distanceKm = distanceMeters / 1000;
             factor = (if sportType = running then 1 else 1 / 2)
         in Math_round (weightKg * distanceKm * factor))
      else estimateCalories sportType durationSeconds weightKg)"

text \<open>The default argument \<open>weightKg: number = 70\<close>.\<close>

definition default_weightKg :: real where
  "default_weightKg = 70"

section \<open>utils/distance.ts: great-circle distance\<close>

text \<open>
  \<open>Math.atan2(y, x)\<close> over the reals: the angle of the point \<open>(x, y)\<close> in
  \<open>(-\<pi>, \<pi>]\<close>, and 0 at the origin.
\<close>

definition Math_atan2 :: "real \<Rightarrow> real \<Rightarrow> real" where
  "Math_atan2 y x =
     (if x > 0 then arctan (y / x)
      else if x < 0 \<and> y \<ge> 0 then arctan (y / x) + pi
      else if x < 0 \<and> y < 0 then arctan (y / x) - pi
      else if y > 0 then pi / 2
      else if y < 0 then - pi / 2
      else 0)"

text \<open>
  The haversine term \<open>a\<close> of \<open>calculateDistance\<close>. Over the reals it lies between 0
  and 1, so both square roots of the source are taken of non-negative numbers.
\<close>

definition haversine_a :: "real \<Rightarrow> real \<Rightarrow> real \<Rightarrow> real \<Rightarrow> real" where
  "haversine_a lat1 lon1 lat2 lon2 =
     (let \<phi>1 = (lat1 * pi) / 180;
          \<phi>2 = (lat2 * pi) / 180;
          \<Delta>\<phi> = ((lat2 - lat1) * pi) / 180;
          \<Delta>lam = ((lon2 - lon1) * pi) / 180
      in sin (\<Delta>\<phi> / 2) * sin (\<Delta>\<phi> / 2) +
         cos \<phi>1 * cos \<phi>2 * sin (\<Delta>lam / 2) * sin (\<Delta>lam / 2))"

definition calculateDistance :: "real \<Rightarrow> real \<Rightarrow> real \<Rightarrow> real \<Rightarrow> real" where
  "calculateDistance lat1 lon1 lat2 lon2 =
     (let R = 6371000;
          a = haversine_a lat1 lon1 lat2 lon2;
          c = 2 * Math_atan2 (sqrt a) (sqrt (1 - a))
      in R * c)"

text \<open>The body of the loop of \<open>calculateTotalDistance\<close>, at index \<open>i\<close>.\<close>

definition total_distance_step :: "GpsPosition list \<Rightarrow> nat \<Rightarrow> real \<Rightarrow> real" where
  "total_distance_step points i acc =
     acc + calculateDistance (latitude (points ! (i - 1))) (longitude (points ! (i - 1)))
               (latitude (points ! i)) (longitude (points ! i))"

definition calculateTotalDistance :: "GpsPosition list \<Rightarrow> real" where
  "calculateTotalDistance points =
     (if length points < 2 then 0
      else fold (total_distance_step points) [1..<length points] 0)"

section \<open>pages/RecordActivity.tsx: the save reduction\<close>

text \<open>\<open>interface Activity\<close> of the database module, as \<open>handleSave\<close> builds it.\<close>

record Activity =
  id' :: string
  title :: string
  sport_type :: SportType
  started_at :: string
  ended_at :: string
  distance_meters :: real
  duration_seconds :: real
  calories :: "int option"
  notes' :: "string option"
  elevation_gain :: "real option"
  elevation_loss :: "real option"
  avg_speed_mps :: "real option"
  max_speed_mps :: "real option"

text \<open>\<open>interface GpsPoint\<close> without the key the store assigns: a position and its
  owning activity.\<close>

record GpsPoint = GpsPosition +
  activity_id :: string

text \<open>The labels of \<open>SPORT_TYPES\<close>.\<close>

fun sport_label :: "SportType \<Rightarrow> string" where
  "sport_label running = ''Running''"
| "sport_label cycling = ''Cycling''"
| "sport_label walking = ''Walking''"
| "sport_label hiking = ''Hiking''"
| "sport_label swimming = ''Swimming''"
| "sport_label other = ''Other''"

text \<open>\<open>a || b\<close> on strings: \<open>b\<close> when \<open>a\<close> is the empty string.\<close>

definition or_string :: "string \<Rightarrow> string \<Rightarrow> string" where
  "or_string a b = (if a = [] then b else a)"

text \<open>\<open>p.speed_mps || 0\<close>: a null speed, like a zero one, counts as 0.\<close>

definition speed_or_0 :: "real option \<Rightarrow> real" where
  "speed_or_0 v = (case v of None \<Rightarrow> 0 | Some x \<Rightarrow> or_number x 0)"

text \<open>
  \<open>Math.max(...xs)\<close>, the arguments folded from the left. JavaScript returns minus
  infinity for no argument; that is \<open>None\<close> here, and \<open>handleSave\<close> calls it on a
  non-empty list only.
\<close>

fun Math_max :: "real list \<Rightarrow> real option" where
  "Math_max [] = None"
| "Math_max (x # xs) = Some (fold max xs x)"

text \<open>
  The activity and the points that \<open>handleSave\<close> writes in one transaction. The
  snapshot is \<open>positions\<close> and \<open>duration\<close>; \<open>now\<close> is the current time as an ISO
  string and \<open>activityId\<close> the fresh identifier from \<open>crypto.randomUUID()\<close>.
\<close>

definition handleSave ::
  "GpsPosition list \<Rightarrow> real \<Rightarrow> SportType \<Rightarrow> string \<Rightarrow> string \<Rightarrow> string \<Rightarrow> string
     \<Rightarrow> Activity \<times> GpsPoint list" where
  "handleSave positions duration sportType title_input notes_input now activityId =
     (let totalDistance = calculateTotalDistance positions;
          elevation = calculateElevation positions;
          calories_est = estimateCaloriesWithDistance sportType totalDistance duration default_weightKg;
          startedAt = (if length positions > 0 then timestamp (positions ! 0) else now);
          endedAt = (if length positions > 0 then timestamp (positions ! (length positions - 1)) else now);
          activity = \<lparr>
            id' = activityId,
            title = or_string title_input (or_string (sport_label sportType) ''Activity''),
            sport_type = sportType,
            started_at = startedAt,
            ended_at = endedAt,
            distance_meters = totalDistance,
            duration_seconds = duration,
            calories = Some calories_est,
            notes' = (if notes_input = [] then None else Some notes_input),
            elevation_gain = Some (gain elevation),
            elevation_loss = Some (loss elevation),
            avg_speed_mps = (if duration > 0 then Some (totalDistance / duration) else None),
            max_speed_mps = (if length positions > 0
                             then Math_max (map (\<lambda>p. speed_or_0 (speed_mps p)) positions)
                             else None)\<rparr>;
          gpsPoints = map (\<lambda>p. \<lparr>
            latitude = latitude p,
            longitude = longitude p,
            elevation_meters = elevation_meters p,
            accuracy_meters = accuracy_meters p,
            speed_mps = speed_mps p,
            timestamp = timestamp p,
            activity_id = activityId\<rparr>) positions
      in (activity, gpsPoints))"

section \<open>The geolocation hook\<close>

text \<open>The part of a browser \<open>GeolocationPosition\<close> that \<open>handlePosition\<close> reads.\<close>

record GeolocationPosition =
  coords_latitude :: real
  coords_longitude :: real
  coords_altitude :: "real option"
  coords_accuracy :: real
  coords_speed :: "real option"
  position_timestamp :: real

text \<open>
  The state of one mounted \<open>useGeolocation\<close>: the five \<open>useState\<close> cells, the
  \<open>positionsRef\<close> cell, and what the browser holds for the hook. \<open>handlePosition\<close>
  is a \<open>useCallback\<close> over \<open>[isPaused]\<close>: each render makes a closure over that
  render's value of \<open>isPaused\<close>, and \<open>start\<close> hands the closure of its own render
  to \<open>getCurrentPosition\<close> and to \<open>watchPosition\<close>. No effect and no other call
  registers a later closure with the browser. So a registered callback is described by
  the value of \<open>isPaused\<close> that it captured. \<open>watch\<close> is the watch whose id
  \<open>watchIdRef.current\<close> holds: \<open>None\<close> when the ref is null, \<open>Some b\<close> for a
  watch whose callback captured \<open>isPaused = b\<close>. \<open>pendingRequest\<close> is the same for
  the one-shot request of \<open>start\<close>, which cannot be cancelled. (\<open>start\<close> is called
  from the idle state, where no watch is registered; a second \<open>start\<close> without
  \<open>stop\<close> would leave the first watch running beside the new one, which this state
  does not represent.)
\<close>

record Geolocation =
  currentPosition :: "GpsPosition option"
  positions :: "GpsPosition list"
  isTracking :: bool
  isPaused :: bool
  error :: "string option"
  watch :: "bool option"
  pendingRequest :: "bool option"
  positionsRef :: "GpsPosition list"

text \<open>The initial values of the hooks.\<close>

definition useGeolocation :: Geolocation where
  "useGeolocation =
     \<lparr>currentPosition = None, positions = [], isTracking = False, isPaused = False,
      error = None, watch = None, pendingRequest = None, positionsRef = []\<rparr>"

text \<open>
  \<open>handlePosition\<close>, as the closure that captured \<open>isPaused = captured\<close>.
  \<open>toISOString\<close> stands for \<open>new Date(t).toISOString()\<close>.
\<close>

definition handlePosition ::
  "(real \<Rightarrow> string) \<Rightarrow> bool \<Rightarrow> GeolocationPosition \<Rightarrow> Geolocation \<Rightarrow> Geolocation" where
  "handlePosition toISOString captured position s =
     (let gpsPoint = \<lparr>
            latitude = coords_latitude position,
            longitude = coords_longitude position,
            elevation_meters = coords_altitude position,
            accuracy_meters = Some (coords_accuracy position),
            speed_mps = coords_speed position,
            timestamp = toISOString (position_timestamp position)\<rparr>;
          s1 = s\<lparr>currentPosition := Some gpsPoint\<rparr>;
          s2 = (if \<not> captured
                then s1\<lparr>positionsRef := positionsRef s1 @ [gpsPoint],
                        positions := positionsRef s1 @ [gpsPoint]\<rparr>
                else s1)
      in s2\<lparr>error := None\<rparr>)"

text \<open>\<open>start\<close>; \<open>supported\<close> is whether \<open>navigator.geolocation\<close> exists.\<close>

definition start :: "bool \<Rightarrow> Geolocation \<Rightarrow> Geolocation" where
  "start supported s =
     (if \<not> supported
      then s\<lparr>error := Some ''Geolocation is not supported by this browser.''\<rparr>
      else s\<lparr>error := None, isTracking := True, isPaused := False,
              positionsRef := [], positions := [],
              pendingRequest := Some (isPaused s),
              watch := Some (isPaused s)\<rparr>)"

definition pause :: "Geolocation \<Rightarrow> Geolocation" where
  "pause s = s\<lparr>isPaused := True\<rparr>"

definition resume :: "Geolocation \<Rightarrow> Geolocation" where
  "resume s = s\<lparr>isPaused := False\<rparr>"

text \<open>\<open>stop\<close> returns \<open>positionsRef.current\<close>; \<open>clearWatch\<close> ends the watch.\<close>

definition stop :: "Geolocation \<Rightarrow> GpsPosition list \<times> Geolocation" where
  "stop s = (positionsRef s, s\<lparr>watch := None, isTracking := False, isPaused := False\<rparr>)"

text \<open>The browser delivers a fix to the watch, if there is one.\<close>

definition watch_fix :: "(real \<Rightarrow> string) \<Rightarrow> GeolocationPosition \<Rightarrow> Geolocation \<Rightarrow> Geolocation" where
  "watch_fix toISOString position s =
     (case watch s of
        None \<Rightarrow> s
      | Some captured \<Rightarrow> handlePosition toISOString captured position s)"

text \<open>The browser answers the one-shot request of \<open>start\<close>, if one is pending.\<close>

definition request_fix :: "(real \<Rightarrow> string) \<Rightarrow> GeolocationPosition \<Rightarrow> Geolocation \<Rightarrow> Geolocation" where
  "request_fix toISOString position s =
     (case pendingRequest s of
        None \<Rightarrow> s
      | Some captured \<Rightarrow> handlePosition toISOString captured position (s\<lparr>pendingRequest := None\<rparr>))"

text \<open>The sample that \<open>handlePosition\<close> makes of a fix.\<close>

definition sample_of :: "(real \<Rightarrow> string) \<Rightarrow> GeolocationPosition \<Rightarrow> GpsPosition" where
  "sample_of toISOString position =
     \<lparr>latitude = coords_latitude position,
      longitude = coords_longitude position,
      elevation_meters = coords_altitude position,
      accuracy_meters = Some (coords_accuracy position),
      speed_mps = coords_speed position,
      timestamp = toISOString (position_timestamp position)\<rparr>"

text \<open>
  For the concrete runs below: a fix with the timestamp \<open>t\<close> and the speed \<open>v\<close>, and
  a stand-in for \<open>toISOString\<close> on the timestamps 1, 2 and 3.
\<close>

definition fix_at :: "real \<Rightarrow> real option \<Rightarrow> GeolocationPosition" where
  "fix_at t v =
     \<lparr>coords_latitude = 60, coords_longitude = 24, coords_altitude = None,
      coords_accuracy = 5, coords_speed = v, position_timestamp = t\<rparr>"

definition stamp :: "real \<Rightarrow> string" where
  "stamp t = (if t = 1 then ''T1'' else if t = 2 then ''T2'' else ''T3'')"

section \<open>JSON values\<close>

text \<open>
  What \<open>JSON.parse\<close> returns, and what the store holds: at run time the types of the
  source are erased, and an imported file may carry any JSON value anywhere. An object
  is the list of its properties in order; \<open>undefined\<close> is \<open>None\<close> of
  \<open>json option\<close>.
\<close>

datatype json =
  JNull | JBool bool | JNum real | JStr string | JArr "json list" | JObj "(string \<times> json) list"

type_synonym obj = "(string \<times> json) list"

datatype js_type = T_undefined | T_object | T_boolean | T_number | T_string

fun truthy :: "json \<Rightarrow> bool" where
  "truthy JNull = False"
| "truthy (JBool b) = b"
| "truthy (JNum n) = (n \<noteq> 0)"
| "truthy (JStr s) = (s \<noteq> [])"
| "truthy (JArr _) = True"
| "truthy (JObj _) = True"

text \<open>\<open>!x\<close>.\<close>

definition falsy :: "json option \<Rightarrow> bool" where
  "falsy x = (case x of None \<Rightarrow> True | Some v \<Rightarrow> \<not> truthy v)"

fun typeof :: "json option \<Rightarrow> js_type" where
  "typeof None = T_undefined"
| "typeof (Some JNull) = T_object"
| "typeof (Some (JBool _)) = T_boolean"
| "typeof (Some (JNum _)) = T_number"
| "typeof (Some (JStr _)) = T_string"
| "typeof (Some (JArr _)) = T_object"
| "typeof (Some (JObj _)) = T_object"

text \<open>
  \<open>x.name\<close> for the names this module reads (\<open>version\<close>, \<open>activities\<close>,
  \<open>activity\<close>, \<open>gpsPoints\<close>, \<open>id\<close>, \<open>sport_type\<close>, \<open>started_at\<close>,
  \<open>title\<close>, \<open>activity_id\<close>): a property of an object, and \<open>undefined\<close> on an
  array or a primitive value, none of which has a property of these names.
\<close>

fun get_prop :: "json \<Rightarrow> string \<Rightarrow> json option" where
  "get_prop (JObj props) name = map_of props name"
| "get_prop _ name = None"

text \<open>\<open>x.name\<close> where \<open>x\<close> may be \<open>undefined\<close>; the source reads it only behind a
  check that \<open>x\<close> is an object.\<close>

definition prop_of :: "json option \<Rightarrow> string \<Rightarrow> json option" where
  "prop_of x name = (case x of None \<Rightarrow> None | Some v \<Rightarrow> get_prop v name)"

fun isArray :: "json option \<Rightarrow> bool" where
  "isArray (Some (JArr _)) = True"
| "isArray _ = False"

text \<open>The decimal name of an array index.\<close>

fun show_nat :: "nat \<Rightarrow> string" where
  "show_nat n =
     (if n < 10 then [''0123456789'' ! n]
      else show_nat (n div 10) @ [''0123456789'' ! (n mod 10)])"

text \<open>The own enumerable properties that a spread \<open>{...x}\<close> copies.\<close>

fun own_props :: "json \<Rightarrow> obj" where
  "own_props (JObj props) = props"
| "own_props (JArr xs) = zip (map show_nat [0..<length xs]) xs"
| "own_props (JStr s) = zip (map show_nat [0..<length s]) (map (\<lambda>c. JStr [c]) s)"
| "own_props _ = []"

section \<open>The store\<close>

text \<open>
  The Dexie database of \<open>db/database.ts\<close>: the table \<open>activities\<close> with the key
  path \<open>id\<close>, and the table \<open>gpsPoints\<close> with the auto-incremented key path
  \<open>id\<close> (\<open>++id\<close>). The store is the browser's IndexedDB, which is not code of this
  repository; the model below is its documented behaviour for the operations the source
  calls. A table holds objects, each under its key, in ascending key order. A key is a
  number, a string or an array of keys; numbers come before strings, and strings before
  arrays.
\<close>

fun valid_key :: "json \<Rightarrow> bool" where
  "valid_key (JNum _) = True"
| "valid_key (JStr _) = True"
| "valid_key (JArr ks) = list_all valid_key ks"
| "valid_key _ = False"

fun key_less :: "json \<Rightarrow> json \<Rightarrow> bool" and keys_less :: "json list \<Rightarrow> json list \<Rightarrow> bool" where
  "key_less (JNum a) (JNum b) = (a < b)"
| "key_less (JNum _) (JStr _) = True"
| "key_less (JNum _) (JArr _) = True"
| "key_less (JStr a) (JStr b) = (a < b)"
| "key_less (JStr _) (JArr _) = True"
| "key_less (JArr a) (JArr b) = keys_less a b"
| "key_less _ _ = False"
| "keys_less [] [] = False"
| "keys_less [] (y # ys) = True"
| "keys_less (x # xs) [] = False"
| "keys_less (x # xs) (y # ys) = (key_less x y \<or> (x = y \<and> keys_less xs ys))"

type_synonym table = "(json \<times> obj) list"

datatype dexie_error = ConstraintError | DataError

record db =
  activities :: table
  gpsPoints :: table
  gpsPoints_keygen :: nat

text \<open>A fresh database; the key generator of an auto-incremented table starts at 1.\<close>

definition empty_db :: db where
  "empty_db = \<lparr>activities = [], gpsPoints = [], gpsPoints_keygen = 1\<rparr>"

fun insert_row :: "json \<Rightarrow> obj \<Rightarrow> table \<Rightarrow> table" where
  "insert_row k v [] = [(k, v)]"
| "insert_row k v ((k', v') # rows) =
     (if key_less k k' then (k, v) # (k', v') # rows else (k', v') # insert_row k v rows)"

text \<open>
  \<open>add\<close> of an object under a key: a \<open>DataError\<close> when the key is not a valid key,
  a \<open>ConstraintError\<close> when the key is taken.
\<close>

definition table_add :: "json \<Rightarrow> obj \<Rightarrow> table \<Rightarrow> dexie_error + table" where
  "table_add k v rows =
     (if \<not> valid_key k then Inl DataError
      else if map_of rows k \<noteq> None then Inl ConstraintError
      else Inr (insert_row k v rows))"

text \<open>\<open>db.activities.get(key)\<close>; \<open>undefined\<close> and the other non-keys are refused.\<close>

definition activities_get :: "json option \<Rightarrow> db \<Rightarrow> dexie_error + obj option" where
  "activities_get key d =
     (case key of
        None \<Rightarrow> Inl DataError
      | Some k \<Rightarrow> if valid_key k then Inr (map_of (activities d) k) else Inl DataError)"

text \<open>\<open>db.activities.add(value)\<close>: the key is the value's \<open>id\<close>.\<close>

definition activities_add :: "json \<Rightarrow> db \<Rightarrow> dexie_error + db" where
  "activities_add v d =
     (case v of
        JObj props \<Rightarrow>
          (case map_of props ''id'' of
             None \<Rightarrow> Inl DataError
           | Some k \<Rightarrow>
               (case table_add k props (activities d) of
                  Inl e \<Rightarrow> Inl e
                | Inr rows \<Rightarrow> Inr (d\<lparr>activities := rows\<rparr>)))
      | _ \<Rightarrow> Inl DataError)"

text \<open>
  The key generator after a record was stored under the explicit key \<open>k\<close>: a number
  at or above the generator's current number moves it past that number.
\<close>

definition bump_keygen :: "json \<Rightarrow> nat \<Rightarrow> nat" where
  "bump_keygen k g =
     (case k of JNum r \<Rightarrow> if r \<ge> real g then nat (\<lfloor>r\<rfloor> + 1) else g | _ \<Rightarrow> g)"

text \<open>
  \<open>add\<close> of one object to \<open>gpsPoints\<close>: an object with an \<open>id\<close> is stored under
  it, an object without is given the generator's current number as its \<open>id\<close>.
\<close>

definition gpsPoints_add :: "obj \<Rightarrow> db \<Rightarrow> dexie_error + db" where
  "gpsPoints_add props d =
     (case map_of props ''id'' of
        None \<Rightarrow>
          (let k = JNum (real (gpsPoints_keygen d))
           in case table_add k (AList.update ''id'' k props) (gpsPoints d) of
                Inl e \<Rightarrow> Inl e
              | Inr rows \<Rightarrow> Inr (d\<lparr>gpsPoints := rows, gpsPoints_keygen := gpsPoints_keygen d + 1\<rparr>))
      | Some k \<Rightarrow>
          (case table_add k props (gpsPoints d) of
             Inl e \<Rightarrow> Inl e
           | Inr rows \<Rightarrow>
               Inr (d\<lparr>gpsPoints := rows, gpsPoints_keygen := bump_keygen k (gpsPoints_keygen d)\<rparr>)))"

text \<open>
  \<open>db.gpsPoints.bulkAdd(points)\<close>. Dexie attempts every point and then rejects with
  the failures; the rejection is not caught inside the transaction, which is rolled
  back, so that here the first failure ends the operation.
\<close>

fun gpsPoints_bulkAdd :: "obj list \<Rightarrow> db \<Rightarrow> dexie_error + db" where
  "gpsPoints_bulkAdd [] d = Inr d"
| "gpsPoints_bulkAdd (p # ps) d =
     (case gpsPoints_add p d of Inl e \<Rightarrow> Inl e | Inr d' \<Rightarrow> gpsPoints_bulkAdd ps d')"



section \<open>utils/exportImport.ts\<close>

text \<open>
  What the platform supplies: \<open>JSON.parse\<close> (\<open>None\<close> when it throws), and the
  conversion to a string of the two values that the error message of a failed item
  interpolates, the activity's \<open>title\<close> and the caught error.
\<close>

record platform =
  JSON_parse :: "string \<Rightarrow> json option"
  String_of_value :: "json option \<Rightarrow> string"
  String_of_error :: "dexie_error \<Rightarrow> string"

text \<open>\<open>({ id, ...point }) => point\<close>.\<close>

definition without_id :: "obj \<Rightarrow> obj" where
  "without_id point = AList.delete ''id'' point"




text \<open>\<open>!x || typeof x !== 'object'\<close> and \<open>!x || typeof x !== 'string'\<close>.\<close>

definition not_an_object :: "json option \<Rightarrow> bool" where
  "not_an_object x = (falsy x \<or> typeof x \<noteq> T_object)"

definition not_a_string :: "json option \<Rightarrow> bool" where
  "not_a_string x = (falsy x \<or> typeof x \<noteq> T_string)"

text \<open>The body of the loop of \<open>validateImportedData\<close>: \<open>False\<close> is its early return.\<close>

definition validate_item :: "json \<Rightarrow> bool" where
  "validate_item item =
     (if not_an_object (Some item) then False
      else (let activity = get_prop item ''activity''
            in if not_an_object activity then False
               else if not_a_string (prop_of activity ''id'') then False
               else if not_a_string (prop_of activity ''sport_type'') then False
               else if not_a_string (prop_of activity ''started_at'') then False
               else if \<not> isArray (get_prop item ''gpsPoints'') then False
               else True))"

fun validate_items :: "json list \<Rightarrow> bool" where
  "validate_items [] = True"
| "validate_items (item # rest) = (if \<not> validate_item item then False else validate_items rest)"

definition validateImportedData :: "json \<Rightarrow> bool" where
  "validateImportedData data =
     (if not_an_object (Some data) then False
      else if not_a_string (get_prop data ''version'') then False
      else (case get_prop data ''activities'' of
              Some (JArr items) \<Rightarrow> validate_items items
            | _ \<Rightarrow> False))"

record ImportResult =
  success :: bool
  imported :: nat
  skipped :: nat
  errors :: "string list"

text \<open>
  What the import loop reads of the document and of an item. The loop runs on validated
  data only, where \<open>data.activities\<close> and \<open>item.gpsPoints\<close> are arrays and
  \<open>item.activity\<close> is an object; the other case of each definition is never taken
  (lemmas \<open>validateImportedData_activities\<close>, \<open>validate_item_activity\<close> and
  \<open>validate_item_gpsPoints\<close>).
\<close>

definition data_activities :: "json \<Rightarrow> json list" where
  "data_activities data = (case get_prop data ''activities'' of Some (JArr items) \<Rightarrow> items | _ \<Rightarrow> [])"

definition item_activity :: "json \<Rightarrow> json" where
  "item_activity item = (case get_prop item ''activity'' of Some a \<Rightarrow> a | None \<Rightarrow> JNull)"

definition item_gpsPoints :: "json \<Rightarrow> json list" where
  "item_gpsPoints item = (case get_prop item ''gpsPoints'' of Some (JArr ps) \<Rightarrow> ps | _ \<Rightarrow> [])"

text \<open>\<open>{ ...point, activity_id: item.activity.id }\<close>.\<close>

definition with_activity_id :: "json \<Rightarrow> json \<Rightarrow> obj" where
  "with_activity_id activityId point = AList.update ''activity_id'' activityId (own_props point)"

text \<open>
  The transaction of the import loop: the activity, then its points if there are any.
  \<open>Inl\<close> is a rejected transaction, which leaves the database as it was. After a
  successful \<open>add\<close> the activity has an \<open>id\<close>.
\<close>

definition import_transaction :: "json \<Rightarrow> db \<Rightarrow> dexie_error + db" where
  "import_transaction item d =
     (case activities_add (item_activity item) d of
        Inl e \<Rightarrow> Inl e
      | Inr d1 \<Rightarrow>
          if length (item_gpsPoints item) > 0 then
            (case get_prop (item_activity item) ''id'' of
               None \<Rightarrow> Inl DataError
             | Some activityId \<Rightarrow>
                 (let pointsWithActivityId = map (with_activity_id activityId) (item_gpsPoints item)
                  in gpsPoints_bulkAdd pointsWithActivityId d1))
          else Inr d1)"

text \<open>The message pushed by the \<open>catch\<close> of the loop.\<close>

definition failed_message :: "platform \<Rightarrow> json \<Rightarrow> dexie_error \<Rightarrow> string" where
  "failed_message env item e =
     ''Failed to import activity \"'' @ String_of_value env (get_prop (item_activity item) ''title'')
       @ ''\": '' @ String_of_error env e"

text \<open>
  The body of the loop of \<open>importActivities\<close>. What \<open>get\<close> finds is a stored object,
  which is truthy: \<open>if (existing)\<close> is the case \<open>Some\<close>. An error thrown by the store
  is caught, and the database is as before the transaction.
\<close>

definition import_item :: "platform \<Rightarrow> json \<Rightarrow> ImportResult \<times> db \<Rightarrow> ImportResult \<times> db" where
  "import_item env item = (\<lambda>(result, d).
     (case activities_get (get_prop (item_activity item) ''id'') d of
        Inl e \<Rightarrow> (result\<lparr>errors := errors result @ [failed_message env item e]\<rparr>, d)
      | Inr (Some existing) \<Rightarrow> (result\<lparr>skipped := skipped result + 1\<rparr>, d)
      | Inr None \<Rightarrow>
          (case import_transaction item d of
             Inl e \<Rightarrow> (result\<lparr>errors := errors result @ [failed_message env item e]\<rparr>, d)
           | Inr d' \<Rightarrow> (result\<lparr>imported := imported result + 1\<rparr>, d'))))"

definition importActivities :: "platform \<Rightarrow> string \<Rightarrow> db \<Rightarrow> ImportResult \<times> db" where
  "importActivities env jsonData d =
     (let result = \<lparr>success = False, imported = 0, skipped = 0, errors = []\<rparr>
      in case JSON_parse env jsonData of
           None \<Rightarrow> (result\<lparr>errors := errors result @ [''Invalid JSON format'']\<rparr>, d)
         | Some data \<Rightarrow>
             if \<not> validateImportedData data then
               (result\<lparr>errors := errors result @
                  [''Invalid data structure. Expected Sports Tracker export format.'']\<rparr>, d)
             else
               (case fold (import_item env) (data_activities data) (result, d) of
                  (result', d') \<Rightarrow>
                    (result'\<lparr>success := (length (errors result') = 0 \<or> imported result' > 0)\<rparr>, d')))"

section \<open>The specification's reading of validation\<close>

text \<open>
  The predicate as the specification words it, for comparison with
  \<open>validateImportedData\<close>: a truthy string is a non-empty string; a document is
  admitted when its \<open>version\<close> is a truthy string, its \<open>activities\<close> is an array, and
  each item has an \<open>activity\<close> object whose \<open>id\<close>, \<open>sport_type\<close> and
  \<open>started_at\<close> are truthy strings, and a \<open>gpsPoints\<close> array.
\<close>

definition truthy_string :: "json option \<Rightarrow> bool" where
  "truthy_string x = (case x of Some (JStr s) \<Rightarrow> s \<noteq> [] | _ \<Rightarrow> False)"

definition spec_item_ok :: "json \<Rightarrow> bool" where
  "spec_item_ok item =
     (case get_prop item ''activity'' of
        Some (JObj activity) \<Rightarrow>
          truthy_string (map_of activity ''id'') \<and>
          truthy_string (map_of activity ''sport_type'') \<and>
          truthy_string (map_of activity ''started_at'') \<and>
          (case get_prop item ''gpsPoints'' of Some (JArr _) \<Rightarrow> True | _ \<Rightarrow> False)
      | _ \<Rightarrow> False)"

definition spec_document_ok :: "json \<Rightarrow> bool" where
  "spec_document_ok data =
     (truthy_string (get_prop data ''version'') \<and>
      (case get_prop data ''activities'' of
         Some (JArr items) \<Rightarrow> list_all spec_item_ok items
       | _ \<Rightarrow> False))"

text \<open>The result of an import that stops at the structure check.\<close>

definition invalid_structure_result :: ImportResult where
  "invalid_structure_result =
     \<lparr>success = False, imported = 0, skipped = 0,
      errors = [''Invalid data structure. Expected Sports Tracker export format.'']\<rparr>"

section \<open>Invariants of the store\<close>

text \<open>Every stored point carries an \<open>activity_id\<close> that is the key of a stored activity.\<close>

definition refs_ok :: "db \<Rightarrow> bool" where
  "refs_ok d =
     list_all (\<lambda>row. case map_of (snd row) ''activity_id'' of
                        Some a \<Rightarrow> map_of (activities d) a \<noteq> None
                      | None \<Rightarrow> False) (gpsPoints d)"

text \<open>
  The states of the store that the application produces. New rows are written by
  \<open>handleSave\<close> (the \<open>id\<close> from \<open>crypto.randomUUID()\<close>, the sport one of the six
  values, the start an ISO timestamp, the points under the same \<open>id\<close>) and by
  \<open>importActivities\<close> (lemma \<open>importActivities_store_wf\<close>); an edit changes the
  title and the notes only, and a deletion removes an activity together with its points.
  So each activity is stored under its \<open>id\<close>, a non-empty string, and has non-empty
  strings as \<open>sport_type\<close> and \<open>started_at\<close>; no key occurs twice; the table is in
  key order; and every point refers to a stored activity.
\<close>

definition store_wf :: "db \<Rightarrow> bool" where
  "store_wf d =
     (list_all (\<lambda>row. truthy_string (Some (fst row))
                    \<and> map_of (snd row) ''id'' = Some (fst row)
                    \<and> truthy_string (map_of (snd row) ''sport_type'')
                    \<and> truthy_string (map_of (snd row) ''started_at'')) (activities d)
      \<and> distinct (map fst (activities d))
      \<and> sorted_wrt (\<lambda>x y. \<not> key_less (fst y) (fst x)) (activities d)
      \<and> refs_ok d)"




section \<open>Concrete platforms, documents and stores\<close>

text \<open>
  A platform whose \<open>JSON.parse\<close> reads the one text \<open>text\<close> as the document
  \<open>j\<close> and rejects every other text.
\<close>

definition platform_with :: "string \<Rightarrow> json \<Rightarrow> platform" where
  "platform_with text j =
     \<lparr>JSON_parse = (\<lambda>s. if s = text then Some j else None),
      String_of_value = (\<lambda>v. case v of Some (JStr s) \<Rightarrow> s | _ \<Rightarrow> ''undefined''),
      String_of_error = (\<lambda>e. case e of ConstraintError \<Rightarrow> ''ConstraintError''
                                       | DataError \<Rightarrow> ''DataError'')\<rparr>"

text \<open>A document of version 2.0 with one activity: an unknown sport, no numeric field.\<close>

definition yoga_bundle :: json where
  "yoga_bundle =
     JObj [(''version'', JStr ''2.0''),
           (''activities'', JArr [
              JObj [(''activity'', JObj [(''id'', JStr ''a1''),
                                          (''sport_type'', JStr ''yoga''),
                                          (''started_at'', JStr ''2024-05-01T10:00:00.000Z'')]),
                    (''gpsPoints'', JArr [])]])]"

text \<open>A document whose only activity has the empty string as its \<open>id\<close>.\<close>

definition empty_id_bundle :: json where
  "empty_id_bundle =
     JObj [(''version'', JStr ''1.0''),
           (''activities'', JArr [
              JObj [(''activity'', JObj [(''id'', JStr []),
                                          (''sport_type'', JStr ''running''),
                                          (''started_at'', JStr ''2024-05-01T10:00:00.000Z'')]),
                    (''gpsPoints'', JArr [])]])]"

text \<open>
  An item whose two points carry the same explicit \<open>id\<close>, and the document made of it,
  which passes validation.
\<close>

definition clashing_item :: json where
  "clashing_item =
     JObj [(''activity'', JObj [(''id'', JStr ''a''),
                                 (''sport_type'', JStr ''running''),
                                 (''started_at'', JStr ''2024-05-01T10:00:00.000Z'')]),
           (''gpsPoints'', JArr [JObj [(''id'', JNum 1)], JObj [(''id'', JNum 1)]])]"

definition clashing_bundle :: json where
  "clashing_bundle = JObj [(''version'', JStr ''1.0''), (''activities'', JArr [clashing_item])]"

text \<open>
  An item whose first point names another activity and whose second point names none,
  the document made of it, and the store after its import into a fresh database.
\<close>

definition mislabelled_item :: json where
  "mislabelled_item =
     JObj [(''activity'', JObj [(''id'', JStr ''a1''), (''sport_type'', JStr ''running''),
                                 (''started_at'', JStr ''2024-05-01T10:00:00.000Z'')]),
           (''gpsPoints'', JArr [JObj [(''activity_id'', JStr ''zzz''), (''latitude'', JNum 60)],
                                 JObj [(''latitude'', JNum 61)]])]"

definition mislabelled_bundle :: json where
  "mislabelled_bundle = JObj [(''version'', JStr ''1.0''), (''activities'', JArr [mislabelled_item])]"

definition mislabelled_db :: db where
  "mislabelled_db =
     \<lparr>activities = [(JStr ''a1'', [(''id'', JStr ''a1''), (''sport_type'', JStr ''running''),
                                    (''started_at'', JStr ''2024-05-01T10:00:00.000Z'')])],
      gpsPoints = [(JNum 1, [(''activity_id'', JStr ''a1''), (''latitude'', JNum 60), (''id'', JNum 1)]),
                   (JNum 2, [(''latitude'', JNum 61), (''activity_id'', JStr ''a1''), (''id'', JNum 2)])],
      gpsPoints_keygen = 3\<rparr>"



section \<open>Elevation: the loop computes the specified sums\<close>







section \<open>Calorie estimate\<close>





section \<open>Great-circle distance\<close>



text \<open>Both square roots of \<open>calculateDistance\<close> are of non-negative numbers.\<close>

lemma haversine_a_range: "0 \<le> haversine_a lat1 lon1 lat2 lon2 \<and> haversine_a lat1 lon1 lat2 lon2 \<le> 1"
proof -
  define p1 where "p1 = lat1 * pi / 180"
  define p2 where "p2 = lat2 * pi / 180"
  define t where "t = sin ((lon2 - lon1) * pi / 180 / 2) * sin ((lon2 - lon1) * pi / 180 / 2)"
  have d: "(lat2 - lat1) * pi / 180 = p2 - p1"
    by (simp add: p1_def p2_def field_simps)
  have t: "0 \<le> t" "t \<le> 1"
  proof -
    show "0 \<le> t" by (simp add: t_def)
    have "sin ((lon2 - lon1) * pi / 180 / 2) ^ 2 \<le> 1"
      by (simp add: abs_square_le_1)
    then show "t \<le> 1" by (simp add: t_def power2_eq_square)
  qed
  have s: "sin ((p2 - p1) / 2) * sin ((p2 - p1) / 2) = (1 - cos (p2 - p1)) / 2"
  proof -
    have "2 * ((p2 - p1) / 2) = p2 - p1" by simp
    with cos_double_sin [of "(p2 - p1) / 2"]
    have "cos (p2 - p1) = 1 - 2 * (sin ((p2 - p1) / 2))\<^sup>2" by (simp only:)
    then show ?thesis by (simp add: power2_eq_square)
  qed
  have c: "cos p1 * cos p2 = (cos (p2 - p1) + cos (p2 + p1)) / 2"
    by (simp add: cos_diff cos_add)
  have a: "haversine_a lat1 lon1 lat2 lon2 =
      (1 - cos (p2 - p1)) / 2 + (cos (p2 - p1) + cos (p2 + p1)) / 2 * t"
  proof -
    have "haversine_a lat1 lon1 lat2 lon2 =
        sin ((p2 - p1) / 2) * sin ((p2 - p1) / 2) + cos p1 * cos p2 * t"
      unfolding haversine_a_def Let_def d by (simp add: p1_def p2_def t_def mult.assoc)
    then show ?thesis by (simp only: s c)
  qed
  have b1: "- 1 \<le> cos (p2 - p1)" "cos (p2 - p1) \<le> 1" "- 1 \<le> cos (p2 + p1)" "cos (p2 + p1) \<le> 1"
    by simp_all
  have e: "(1 - cos (p2 - p1)) / 2 + (cos (p2 - p1) + cos (p2 + p1)) / 2 * t =
      ((1 - cos (p2 - p1)) * (1 - t) + (1 + cos (p2 + p1)) * t) / 2"
    by (simp add: field_simps)
  have e': "1 - ((1 - cos (p2 - p1)) / 2 + (cos (p2 - p1) + cos (p2 + p1)) / 2 * t) =
      ((1 + cos (p2 - p1)) * (1 - t) + (1 - cos (p2 + p1)) * t) / 2"
    by (simp add: field_simps)
  have n: "0 \<le> 1 - cos (p2 - p1)" "0 \<le> 1 + cos (p2 + p1)" "0 \<le> 1 + cos (p2 - p1)"
    "0 \<le> 1 - cos (p2 + p1)" "0 \<le> 1 - t"
    using b1 t by linarith+
  have "0 \<le> (1 - cos (p2 - p1)) * (1 - t) + (1 + cos (p2 + p1)) * t"
    by (rule add_nonneg_nonneg; rule mult_nonneg_nonneg) (fact n t)+
  moreover have "0 \<le> (1 + cos (p2 - p1)) * (1 - t) + (1 - cos (p2 + p1)) * t"
    by (rule add_nonneg_nonneg; rule mult_nonneg_nonneg) (fact n t)+
  ultimately have h: "0 \<le> ((1 - cos (p2 - p1)) * (1 - t) + (1 + cos (p2 + p1)) * t) / 2"
    "0 \<le> ((1 + cos (p2 - p1)) * (1 - t) + (1 - cos (p2 + p1)) * t) / 2"
    by simp_all
  have "0 \<le> (1 - cos (p2 - p1)) / 2 + (cos (p2 - p1) + cos (p2 + p1)) / 2 * t"
    using h(1) by (simp only: e)
  moreover have "0 \<le> 1 - ((1 - cos (p2 - p1)) / 2 + (cos (p2 - p1) + cos (p2 + p1)) / 2 * t)"
    using h(2) by (simp only: e')
  ultimately show ?thesis
    unfolding a by simp
qed



section \<open>Save reduction\<close>

lemma speed_or_0_eq: "speed_or_0 v = (case v of None \<Rightarrow> 0 | Some x \<Rightarrow> x)"
  by (simp add: speed_or_0_def or_number_def split: option.splits)

lemma Math_max_Max: "xs \<noteq> [] \<Longrightarrow> Math_max xs = Some (Max (set xs))"
  by (cases xs) (simp_all add: Max.set_eq_fold [symmetric])

text \<open>
  Claim C5. The activity that \<open>handleSave\<close> builds from the snapshot (samples and
  elapsed seconds) has: as average speed the distance divided by the seconds when the
  seconds are positive, and null otherwise; as maximum speed the maximum of the sample
  speeds with a null speed counted as 0, and null for no sample; as start and end the
  timestamps of the first and of the last sample, and the current time for both when
  there is no sample.
\<close>

theorem handleSave_reduction:
  "avg_speed_mps (fst (handleSave samples duration sportType t n now aid)) =
     (if duration > 0 then Some (calculateTotalDistance samples / duration) else None)
   \<and> max_speed_mps (fst (handleSave samples duration sportType t n now aid)) =
     (if samples = [] then None
      else Some (Max (set (map (\<lambda>p. case speed_mps p of None \<Rightarrow> 0 | Some v \<Rightarrow> v) samples))))
   \<and> started_at (fst (handleSave samples duration sportType t n now aid)) =
     (if samples = [] then now else timestamp (hd samples))
   \<and> ended_at (fst (handleSave samples duration sportType t n now aid)) =
     (if samples = [] then now else timestamp (last samples))"
proof (cases "samples = []")
  case True
  then show ?thesis by (simp add: handleSave_def Let_def)
next
  case False
  then have "map (\<lambda>p. speed_or_0 (speed_mps p)) samples \<noteq> []" by simp
  from Math_max_Max [OF this] False show ?thesis
    by (simp add: handleSave_def Let_def hd_conv_nth last_conv_nth speed_or_0_eq)
qed

text \<open>
  Both cases at concrete snapshots: one sample of speed 3 after 10 seconds (a single
  sample has distance 0), and no sample after 0 seconds.
\<close>

theorem handleSave_reduction_witness:
  "avg_speed_mps (fst (handleSave [sample_of stamp (fix_at 1 (Some 3))] 10 running [] [] ''NOW'' ''A'')) = Some 0
   \<and> max_speed_mps (fst (handleSave [sample_of stamp (fix_at 1 (Some 3))] 10 running [] [] ''NOW'' ''A'')) = Some 3
   \<and> started_at (fst (handleSave [sample_of stamp (fix_at 1 (Some 3))] 10 running [] [] ''NOW'' ''A'')) = ''T1''
   \<and> ended_at (fst (handleSave [sample_of stamp (fix_at 1 (Some 3))] 10 running [] [] ''NOW'' ''A'')) = ''T1''
   \<and> avg_speed_mps (fst (handleSave [] 0 running [] [] ''NOW'' ''A'')) = None
   \<and> max_speed_mps (fst (handleSave [] 0 running [] [] ''NOW'' ''A'')) = None
   \<and> started_at (fst (handleSave [] 0 running [] [] ''NOW'' ''A'')) = ''NOW''
   \<and> ended_at (fst (handleSave [] 0 running [] [] ''NOW'' ''A'')) = ''NOW''"
  using handleSave_reduction [of "[sample_of stamp (fix_at 1 (Some 3))]" 10 running "[]" "[]" "''NOW''" "''A''"]
    handleSave_reduction [of "[]" 0 running "[]" "[]" "''NOW''" "''A''"]
  by (simp add: sample_of_def fix_at_def stamp_def calculateTotalDistance_def)

section \<open>Recording: pause and resume\<close>

text \<open>
  \<open>pause\<close> and \<open>resume\<close> change the state cell only, not the registered callback;
  and a callback that captured \<open>isPaused = false\<close> appends every fix, whatever the
  state cell holds when the fix arrives.
\<close>

lemma pause_resume_keep_watch: "watch (pause s) = watch s \<and> watch (resume s) = watch s"
  by (simp add: pause_def resume_def)

lemma watch_fix_appends:
  "watch s = Some False \<Longrightarrow>
   positionsRef (watch_fix toISO p s) = positionsRef s @ [sample_of toISO p]"
  by (simp add: watch_fix_def handlePosition_def sample_of_def Let_def)

lemma watch_fix_currentPosition:
  "watch s = Some b \<Longrightarrow> currentPosition (watch_fix toISO p s) = Some (sample_of toISO p)"
  by (simp add: watch_fix_def handlePosition_def sample_of_def Let_def)

text \<open>
  Claim C1, evaluated on the code. In the session start, fix 1, pause, fix 2, resume,
  fix 3, stop, the watch calls the closure that \<open>start\<close> registered, which captured
  \<open>isPaused = false\<close>: the fix delivered between pause and resume is appended like
  the others, and \<open>stop\<close> returns all three samples. The current position does follow
  every fix, also the one delivered while paused.
\<close>

theorem pause_does_not_gate_samples:
  "fst (stop (watch_fix toISO p3 (resume (watch_fix toISO p2 (pause (watch_fix toISO p1
      (start True useGeolocation)))))))
     = [sample_of toISO p1, sample_of toISO p2, sample_of toISO p3]
   \<and> currentPosition (watch_fix toISO p2 (pause (watch_fix toISO p1 (start True useGeolocation))))
     = Some (sample_of toISO p2)"
  by (simp add: stop_def watch_fix_def resume_def pause_def start_def useGeolocation_def
      handlePosition_def sample_of_def Let_def)

section \<open>Validation is the specified predicate\<close>

lemma not_a_string_iff: "not_a_string x = (\<not> truthy_string x)"
  by (cases x rule: typeof.cases) (simp_all add: not_a_string_def truthy_string_def falsy_def)

lemma not_an_object_iff: "not_an_object x = (\<not> (\<exists>xs. x = Some (JArr xs)) \<and> \<not> (\<exists>ps. x = Some (JObj ps)))"
  by (cases x rule: typeof.cases) (simp_all add: not_an_object_def falsy_def)

lemma isArray_iff: "isArray x = (\<exists>xs. x = Some (JArr xs))"
  by (cases x rule: isArray.cases) simp_all

lemma validate_item_spec: "validate_item item = spec_item_ok item"
proof (cases item)
  case (JObj props)
  show ?thesis
  proof (cases "map_of props ''activity''")
    case None
    with JObj show ?thesis
      by (simp add: validate_item_def spec_item_ok_def not_an_object_iff)
  next
    case (Some a)
    with JObj show ?thesis
      by (cases a)
        (auto simp: validate_item_def spec_item_ok_def not_an_object_iff not_a_string_iff
          prop_of_def isArray_iff truthy_string_def split: option.splits json.splits)
  qed
qed (simp_all add: validate_item_def spec_item_ok_def not_an_object_iff)

lemma validate_items_list_all: "validate_items items = list_all validate_item items"
  by (induction items) simp_all

lemma validateImportedData_spec: "validateImportedData data = spec_document_ok data"
proof (cases data)
  case (JObj props)
  then show ?thesis
    by (auto simp: validateImportedData_def spec_document_ok_def not_an_object_iff
        not_a_string_iff validate_items_list_all validate_item_spec list_all_iff
        split: option.splits json.splits)
qed (simp_all add: validateImportedData_def spec_document_ok_def not_an_object_iff
      not_a_string_iff truthy_string_def)

text \<open>On validated data the loop finds the array of items, and in each item an activity
  object and an array of points.\<close>

lemma validateImportedData_activities:
  "validateImportedData data \<Longrightarrow> \<exists>items. get_prop data ''activities'' = Some (JArr items)"
  by (auto simp: validateImportedData_def split: option.splits json.splits if_splits)

lemma validate_item_activity:
  "validate_item item \<Longrightarrow> \<exists>props. get_prop item ''activity'' = Some (JObj props)"
  by (auto simp: validate_item_spec spec_item_ok_def split: option.splits json.splits)

lemma validate_item_gpsPoints:
  "validate_item item \<Longrightarrow> \<exists>ps. get_prop item ''gpsPoints'' = Some (JArr ps)"
  by (auto simp: validate_item_spec spec_item_ok_def split: option.splits json.splits)

section \<open>Tables and the import transaction\<close>

lemma set_insert_row: "set (insert_row k v rows) = insert (k, v) (set rows)"
  by (induction k v rows rule: insert_row.induct) auto

lemma map_of_insert_row:
  "map_of rows k = None \<Longrightarrow> map_of (insert_row k v rows) = (map_of rows)(k \<mapsto> v)"
  by (induction k v rows rule: insert_row.induct) (auto simp: fun_eq_iff split: if_splits)


lemma table_add_Inr:
  "table_add k v rows = Inr rows' \<longleftrightarrow>
     valid_key k \<and> map_of rows k = None \<and> rows' = insert_row k v rows"
  by (auto simp: table_add_def)

lemma activities_add_Inr:
  assumes "activities_add v d = Inr d1"
  obtains props k where "v = JObj props" "map_of props ''id'' = Some k" "valid_key k"
    "map_of (activities d) k = None" "d1 = d\<lparr>activities := insert_row k props (activities d)\<rparr>"
  using assms
  by (auto simp: activities_add_def table_add_Inr split: json.splits option.splits sum.splits)

lemma gpsPoints_add_Inr:
  assumes "gpsPoints_add p d = Inr d'"
  shows "activities d' = activities d"
    and "\<exists>k v. gpsPoints d' = insert_row k v (gpsPoints d) \<and> map_of (gpsPoints d) k = None
           \<and> map_of v ''activity_id'' = map_of p ''activity_id''"
proof -
  show "activities d' = activities d"
    using assms
    by (auto simp: gpsPoints_add_def table_add_Inr Let_def split: option.splits sum.splits)
  show "\<exists>k v. gpsPoints d' = insert_row k v (gpsPoints d) \<and> map_of (gpsPoints d) k = None
           \<and> map_of v ''activity_id'' = map_of p ''activity_id''"
  proof (cases "map_of p ''id''")
    case None
    let ?k = "JNum (real (gpsPoints_keygen d))"
    from None assms have "gpsPoints d' = insert_row ?k (AList.update ''id'' ?k p) (gpsPoints d)"
      and "map_of (gpsPoints d) ?k = None"
      by (auto simp: gpsPoints_add_def table_add_Inr Let_def split: sum.splits)
    moreover have "map_of (AList.update ''id'' ?k p) ''activity_id'' = map_of p ''activity_id''"
      by (simp add: update_conv')
    ultimately show ?thesis by blast
  next
    case (Some k)
    with assms have "gpsPoints d' = insert_row k p (gpsPoints d)"
      and "map_of (gpsPoints d) k = None"
      by (auto simp: gpsPoints_add_def table_add_Inr split: sum.splits)
    then show ?thesis by blast
  qed
qed

lemma gpsPoints_bulkAdd_Inr:
  "gpsPoints_bulkAdd ps d = Inr d' \<Longrightarrow>
     activities d' = activities d \<and>
     (\<forall>row \<in> set (gpsPoints d'). row \<in> set (gpsPoints d) \<or>
        (\<exists>p \<in> set ps. map_of (snd row) ''activity_id'' = map_of p ''activity_id''))"
proof (induction ps arbitrary: d)
  case Nil
  then show ?case by simp
next
  case (Cons p ps)
  from Cons.prems obtain d1 where d1: "gpsPoints_add p d = Inr d1"
    and rest: "gpsPoints_bulkAdd ps d1 = Inr d'"
    by (auto split: sum.splits)
  from gpsPoints_add_Inr [OF d1] obtain k v where
    a: "activities d1 = activities d" and
    g: "gpsPoints d1 = insert_row k v (gpsPoints d)" and
    m: "map_of v ''activity_id'' = map_of p ''activity_id''"
    by blast
  from Cons.IH [OF rest] a g m show ?case
    by (auto simp: set_insert_row)
qed

lemma with_activity_id_conv:
  "map_of (with_activity_id a point) ''activity_id'' = Some a"
  by (simp add: with_activity_id_def update_conv')

lemma import_transaction_Inr:
  assumes "import_transaction item d = Inr d'"
  shows "\<exists>a props. item_activity item = JObj props \<and> map_of props ''id'' = Some a \<and> valid_key a
           \<and> map_of (activities d) a = None
           \<and> activities d' = insert_row a props (activities d)
           \<and> (\<forall>row \<in> set (gpsPoints d'). row \<in> set (gpsPoints d) \<or>
                 map_of (snd row) ''activity_id'' = Some a)"
proof -
  from assms obtain d1 where d1: "activities_add (item_activity item) d = Inr d1"
    by (auto simp: import_transaction_def split: sum.splits)
  from d1 obtain props k where v: "item_activity item = JObj props"
    and k: "map_of props ''id'' = Some k" "valid_key k" "map_of (activities d) k = None"
    and d1_eq: "d1 = d\<lparr>activities := insert_row k props (activities d)\<rparr>"
    by (rule activities_add_Inr)
  show ?thesis
  proof (cases "length (item_gpsPoints item) > 0")
    case False
    with assms d1 have "d' = d1" by (simp add: import_transaction_def)
    with v k d1_eq show ?thesis by auto
  next
    case True
    with assms d1 v k have b: "gpsPoints_bulkAdd (map (with_activity_id k) (item_gpsPoints item)) d1 = Inr d'"
      by (simp add: import_transaction_def)
    from gpsPoints_bulkAdd_Inr [OF b] v k d1_eq show ?thesis
      by (auto simp: with_activity_id_conv)
  qed
qed

lemma mislabelled_transaction: "import_transaction mislabelled_item empty_db = Inr mislabelled_db"
  by (simp add: import_transaction_def mislabelled_item_def mislabelled_db_def empty_db_def
      item_activity_def item_gpsPoints_def activities_add_def table_add_def with_activity_id_def
      gpsPoints_add_def Let_def)

lemma clashing_transaction: "import_transaction clashing_item empty_db = Inl ConstraintError"
  by (simp add: import_transaction_def clashing_item_def empty_db_def
      item_activity_def item_gpsPoints_def activities_add_def table_add_def with_activity_id_def
      gpsPoints_add_def bump_keygen_def Let_def)

section \<open>The import loop\<close>

lemma import_item_cases:
  assumes "import_item env item (r, d) = (r', d')"
  obtains
    (failed) e where "r' = r\<lparr>errors := errors r @ [failed_message env item e]\<rparr>" "d' = d"
  | (skipped) existing where
      "activities_get (get_prop (item_activity item) ''id'') d = Inr (Some existing)"
      "r' = r\<lparr>skipped := skipped r + 1\<rparr>" "d' = d"
  | (imported)
      "activities_get (get_prop (item_activity item) ''id'') d = Inr None"
      "import_transaction item d = Inr d'" "r' = r\<lparr>imported := imported r + 1\<rparr>"
  using assms
  by (auto simp: import_item_def split: sum.splits option.splits)

lemma import_item_existing:
  "activities_get (get_prop (item_activity item) ''id'') d = Inr (Some existing) \<Longrightarrow>
   import_item env item (r, d) = (r\<lparr>skipped := skipped r + 1\<rparr>, d)"
  by (simp add: import_item_def)

lemma importActivities_valid:
  assumes "JSON_parse env text = Some data" "validateImportedData data"
  shows "importActivities env text d =
     (case fold (import_item env) (data_activities data)
            (\<lparr>success = False, imported = 0, skipped = 0, errors = []\<rparr>, d) of
        (r', d') \<Rightarrow> (r'\<lparr>success := (errors r' = [] \<or> imported r' > 0)\<rparr>, d'))"
  using assms by (simp add: importActivities_def)

lemma import_transaction_keeps:
  assumes "import_transaction item d = Inr d'" "map_of (activities d) k = Some v"
  shows "map_of (activities d') k = Some v"
proof -
  from import_transaction_Inr [OF assms(1)] obtain a props where
    "map_of (activities d) a = None" "activities d' = insert_row a props (activities d)"
    by blast
  with assms(2) show ?thesis
    by (auto simp: map_of_insert_row)
qed

lemma import_item_keeps:
  assumes "import_item env item (r, d) = (r', d')" "map_of (activities d) k = Some v"
  shows "map_of (activities d') k = Some v"
  using assms by (cases rule: import_item_cases) (auto intro: import_transaction_keeps)

lemma fold_import_item_keeps:
  "fold (import_item env) items (r, d) = (r', d') \<Longrightarrow> map_of (activities d) k = Some v \<Longrightarrow>
   map_of (activities d') k = Some v"
proof (induction items arbitrary: r d)
  case Nil
  then show ?case by simp
next
  case (Cons item items)
  obtain r1 d1 where s: "import_item env item (r, d) = (r1, d1)"
    by (cases "import_item env item (r, d)")
  with Cons.prems have "fold (import_item env) items (r1, d1) = (r', d')" by simp
  from Cons.IH [OF this import_item_keeps [OF s Cons.prems(2)]] show ?case .
qed

text \<open>The loop only appends messages, each beginning with \<open>Failed to import\<close>.\<close>

lemma fold_import_item_errors:
  "fold (import_item env) items (r, d) = (r', d') \<Longrightarrow>
   \<exists>es. errors r' = errors r @ es \<and> (\<forall>e \<in> set es. hd e = CHR ''F'')"
proof (induction items arbitrary: r d)
  case Nil
  then show ?case by simp
next
  case (Cons item items)
  obtain r1 d1 where s: "import_item env item (r, d) = (r1, d1)"
    by (cases "import_item env item (r, d)")
  with Cons.prems have f: "fold (import_item env) items (r1, d1) = (r', d')" by simp
  from Cons.IH [OF f] obtain es where es: "errors r' = errors r1 @ es" "\<forall>e \<in> set es. hd e = CHR ''F''"
    by blast
  from s have "\<exists>es1. errors r1 = errors r @ es1 \<and> (\<forall>e \<in> set es1. hd e = CHR ''F'')"
    by (cases rule: import_item_cases) (auto simp: failed_message_def)
  then obtain es1 where "errors r1 = errors r @ es1" "\<forall>e \<in> set es1. hd e = CHR ''F''" by blast
  with es have "errors r' = errors r @ (es1 @ es) \<and> (\<forall>e \<in> set (es1 @ es). hd e = CHR ''F'')"
    by auto
  then show ?case by blast
qed

section \<open>Unparseable and ill-structured input\<close>

text \<open>
  Claim C4. For every input string that \<open>JSON.parse\<close> rejects, \<open>importActivities\<close>
  returns exactly the errors \<open>["Invalid JSON format"]\<close> with success false, imported 0
  and skipped 0, and leaves the store as it was; and a parsed document that fails the
  structure validation likewise ends the import with its single error and an unchanged
  store.
\<close>

theorem importActivities_rejects_unparseable:
  "(JSON_parse env text = None \<longrightarrow>
      importActivities env text d =
        (\<lparr>success = False, imported = 0, skipped = 0, errors = [''Invalid JSON format'']\<rparr>, d))
   \<and> (JSON_parse env text = Some data \<and> \<not> validateImportedData data \<longrightarrow>
      importActivities env text d = (invalid_structure_result, d))"
  by (simp add: importActivities_def invalid_structure_result_def)

text \<open>
  A platform that parses only the text \<open>{}\<close>: a truncated text is rejected by the parser,
  and the empty object by the validation.
\<close>

theorem importActivities_rejects_unparseable_witness:
  "JSON_parse (platform_with ''{}'' (JObj [])) ''{\"version\":'' = None
   \<and> importActivities (platform_with ''{}'' (JObj [])) ''{\"version\":'' empty_db =
        (\<lparr>success = False, imported = 0, skipped = 0, errors = [''Invalid JSON format'']\<rparr>, empty_db)
   \<and> JSON_parse (platform_with ''{}'' (JObj [])) ''{}'' = Some (JObj [])
   \<and> \<not> validateImportedData (JObj [])
   \<and> importActivities (platform_with ''{}'' (JObj [])) ''{}'' empty_db =
        (invalid_structure_result, empty_db)"
  using importActivities_rejects_unparseable [of "platform_with ''{}'' (JObj [])" "''{\"version\":''" empty_db "JObj []"]
    importActivities_rejects_unparseable [of "platform_with ''{}'' (JObj [])" "''{}''" empty_db "JObj []"]
  by (simp add: platform_with_def validateImportedData_def not_a_string_def falsy_def)

section \<open>What validation checks\<close>

text \<open>
  Claim C9. \<open>validateImportedData\<close> is the predicate of the specification: a truthy
  string \<open>version\<close> of any value, an \<open>activities\<close> array, and for each item an
  \<open>activity\<close> object whose \<open>id\<close>, \<open>sport_type\<close> and \<open>started_at\<close> are truthy
  strings plus a \<open>gpsPoints\<close> array; and the import of a parsed document ends with the
  invalid-structure result exactly when the document fails the predicate. Nothing else
  is checked: the document of version 2.0 whose activity has the unknown sport
  \<open>yoga\<close> and no numeric field passes and is imported, while an empty string as
  \<open>id\<close> is rejected.
\<close>

theorem validateImportedData_is_spec_predicate:
  "validateImportedData data = spec_document_ok data
   \<and> (JSON_parse env text = Some data \<longrightarrow>
        (importActivities env text d = (invalid_structure_result, d)) = (\<not> spec_document_ok data))
   \<and> spec_document_ok yoga_bundle
   \<and> importActivities (platform_with ''file'' yoga_bundle) ''file'' empty_db =
       (\<lparr>success = True, imported = 1, skipped = 0, errors = []\<rparr>,
        \<lparr>activities = [(JStr ''a1'', [(''id'', JStr ''a1''), (''sport_type'', JStr ''yoga''),
                          (''started_at'', JStr ''2024-05-01T10:00:00.000Z'')])],
         gpsPoints = [], gpsPoints_keygen = 1\<rparr>)
   \<and> \<not> spec_document_ok empty_id_bundle"
proof (intro conjI impI)
  show "validateImportedData data = spec_document_ok data"
    by (rule validateImportedData_spec)
  show "(importActivities env text d = (invalid_structure_result, d)) = (\<not> spec_document_ok data)"
    if p: "JSON_parse env text = Some data"
  proof (cases "validateImportedData data")
    case False
    with p show ?thesis
      by (simp add: importActivities_def invalid_structure_result_def validateImportedData_spec)
  next
    case True
    obtain r' d' where f: "fold (import_item env) (data_activities data)
            (\<lparr>success = False, imported = 0, skipped = 0, errors = []\<rparr>, d) = (r', d')"
      by (cases "fold (import_item env) (data_activities data)
            (\<lparr>success = False, imported = 0, skipped = 0, errors = []\<rparr>, d)")
    from fold_import_item_errors [OF f] have "\<forall>e \<in> set (errors r'). hd e = CHR ''F''"
      by auto
    then have "errors r' \<noteq> [''Invalid data structure. Expected Sports Tracker export format.'']"
      by auto
    moreover have "errors (fst (importActivities env text d)) = errors r'"
      using True p f by (simp add: importActivities_valid)
    ultimately have "importActivities env text d \<noteq> (invalid_structure_result, d)"
      by (auto simp: invalid_structure_result_def)
    with True show ?thesis
      by (simp add: validateImportedData_spec)
  qed
  show "spec_document_ok yoga_bundle"
    by (simp add: spec_document_ok_def yoga_bundle_def spec_item_ok_def truthy_string_def)
  show "importActivities (platform_with ''file'' yoga_bundle) ''file'' empty_db =
       (\<lparr>success = True, imported = 1, skipped = 0, errors = []\<rparr>,
        \<lparr>activities = [(JStr ''a1'', [(''id'', JStr ''a1''), (''sport_type'', JStr ''yoga''),
                          (''started_at'', JStr ''2024-05-01T10:00:00.000Z'')])],
         gpsPoints = [], gpsPoints_keygen = 1\<rparr>)"
    by (simp add: importActivities_def platform_with_def validateImportedData_spec
        spec_document_ok_def yoga_bundle_def spec_item_ok_def truthy_string_def
        data_activities_def import_item_def item_activity_def activities_get_def empty_db_def
        import_transaction_def activities_add_def table_add_def item_gpsPoints_def)
  show "\<not> spec_document_ok empty_id_bundle"
    by (simp add: spec_document_ok_def empty_id_bundle_def spec_item_ok_def truthy_string_def)
qed

text \<open>The equivalence at a parsed document that fails the predicate, and at one that passes.\<close>

theorem validateImportedData_is_spec_predicate_witness:
  "JSON_parse (platform_with ''file'' empty_id_bundle) ''file'' = Some empty_id_bundle
   \<and> \<not> validateImportedData empty_id_bundle
   \<and> importActivities (platform_with ''file'' empty_id_bundle) ''file'' empty_db =
        (invalid_structure_result, empty_db)
   \<and> JSON_parse (platform_with ''file'' yoga_bundle) ''file'' = Some yoga_bundle
   \<and> validateImportedData yoga_bundle
   \<and> importActivities (platform_with ''file'' yoga_bundle) ''file'' empty_db \<noteq>
        (invalid_structure_result, empty_db)"
  using validateImportedData_is_spec_predicate [of empty_id_bundle "platform_with ''file'' empty_id_bundle" "''file''" empty_db]
    validateImportedData_is_spec_predicate [of yoga_bundle "platform_with ''file'' yoga_bundle" "''file''" empty_db]
  by (simp add: platform_with_def)

section \<open>Imported points refer to their activity\<close>

lemma import_transaction_refs_ok:
  assumes "import_transaction item d = Inr d'" "refs_ok d"
  shows "refs_ok d'"
proof -
  from import_transaction_Inr [OF assms(1)] obtain a props where
    none: "map_of (activities d) a = None" and
    acts: "activities d' = insert_row a props (activities d)" and
    rows: "\<forall>row \<in> set (gpsPoints d'). row \<in> set (gpsPoints d) \<or>
             map_of (snd row) ''activity_id'' = Some a"
    by blast
  have m: "map_of (activities d') = (map_of (activities d))(a \<mapsto> props)"
    using none acts by (simp add: map_of_insert_row)
  show ?thesis
    unfolding refs_ok_def list_all_iff
  proof
    fix row assume "row \<in> set (gpsPoints d')"
    with rows consider "row \<in> set (gpsPoints d)" | "map_of (snd row) ''activity_id'' = Some a"
      by blast
    then show "case map_of (snd row) ''activity_id'' of
                 None \<Rightarrow> False | Some a \<Rightarrow> map_of (activities d') a \<noteq> None"
    proof cases
      case 1
      with assms(2) show ?thesis
        by (auto simp: refs_ok_def list_all_iff m split: option.splits)
    next
      case 2
      then show ?thesis by (simp add: m)
    qed
  qed
qed

lemma import_item_refs_ok:
  assumes "import_item env item (r, d) = (r', d')" "refs_ok d"
  shows "refs_ok d'"
  using assms by (cases rule: import_item_cases) (auto intro: import_transaction_refs_ok)

lemma fold_import_item_refs_ok:
  "fold (import_item env) items (r, d) = (r', d') \<Longrightarrow> refs_ok d \<Longrightarrow> refs_ok d'"
proof (induction items arbitrary: r d)
  case Nil
  then show ?case by simp
next
  case (Cons item items)
  obtain r1 d1 where s: "import_item env item (r, d) = (r1, d1)"
    by (cases "import_item env item (r, d)")
  with Cons.prems have "fold (import_item env) items (r1, d1) = (r', d')" by simp
  from Cons.IH [OF this import_item_refs_ok [OF s Cons.prems(2)]] show ?case .
qed

lemma importActivities_refs_ok: "refs_ok d \<Longrightarrow> refs_ok (snd (importActivities env text d))"
  by (auto simp: importActivities_def Let_def split: option.splits prod.splits
      dest: fold_import_item_refs_ok)

lemma length_insert_row: "length (insert_row k v rows) = Suc (length rows)"
  by (induction k v rows rule: insert_row.induct) auto

lemma gpsPoints_add_stored:
  assumes "gpsPoints_add p d = Inr d'"
  shows "\<exists>k v. gpsPoints d' = insert_row k v (gpsPoints d) \<and> without_id v = without_id p"
proof (cases "map_of p ''id''")
  case None
  let ?k = "JNum (real (gpsPoints_keygen d))"
  from None assms have "gpsPoints d' = insert_row ?k (AList.update ''id'' ?k p) (gpsPoints d)"
    by (auto simp: gpsPoints_add_def table_add_Inr Let_def split: sum.splits)
  moreover have "without_id (AList.update ''id'' ?k p) = without_id p"
    by (simp add: without_id_def delete_update_same)
  ultimately show ?thesis by blast
next
  case (Some k)
  with assms have "gpsPoints d' = insert_row k p (gpsPoints d)"
    by (auto simp: gpsPoints_add_def table_add_Inr split: sum.splits)
  then show ?thesis by blast
qed

lemma gpsPoints_bulkAdd_stored:
  "gpsPoints_bulkAdd ps d = Inr d' \<Longrightarrow>
     length (gpsPoints d') = length (gpsPoints d) + length ps \<and>
     set (gpsPoints d) \<subseteq> set (gpsPoints d') \<and>
     (\<forall>p \<in> set ps. \<exists>row \<in> set (gpsPoints d'). without_id (snd row) = without_id p)"
proof (induction ps arbitrary: d)
  case Nil
  then show ?case by simp
next
  case (Cons p ps)
  from Cons.prems obtain d1 where d1: "gpsPoints_add p d = Inr d1"
    and rest: "gpsPoints_bulkAdd ps d1 = Inr d'"
    by (auto split: sum.splits)
  from gpsPoints_add_stored [OF d1] obtain k v where
    g: "gpsPoints d1 = insert_row k v (gpsPoints d)" and w: "without_id v = without_id p"
    by blast
  from Cons.IH [OF rest] have
    len: "length (gpsPoints d') = length (gpsPoints d1) + length ps" and
    sub: "set (gpsPoints d1) \<subseteq> set (gpsPoints d')" and
    all: "\<forall>p \<in> set ps. \<exists>row \<in> set (gpsPoints d'). without_id (snd row) = without_id p"
    by auto
  have "(k, v) \<in> set (gpsPoints d')" using sub g by (auto simp: set_insert_row)
  with w have "\<exists>row \<in> set (gpsPoints d'). without_id (snd row) = without_id p" by force
  with len sub all g show ?case
    by (auto simp: length_insert_row set_insert_row)
qed

lemma import_transaction_stored:
  assumes "import_transaction item d = Inr d'"
    and "get_prop (item_activity item) ''id'' = Some a"
  shows "length (gpsPoints d') = length (gpsPoints d) + length (item_gpsPoints item)"
    and "set (gpsPoints d) \<subseteq> set (gpsPoints d')"
    and "\<forall>p \<in> set (item_gpsPoints item). \<exists>row \<in> set (gpsPoints d').
           without_id (snd row) = without_id (with_activity_id a p)"
proof -
  from assms(1) obtain d1 where d1: "activities_add (item_activity item) d = Inr d1"
    by (auto simp: import_transaction_def split: sum.splits)
  then have g1: "gpsPoints d1 = gpsPoints d"
    by (rule activities_add_Inr) simp
  have "length (gpsPoints d') = length (gpsPoints d) + length (item_gpsPoints item)
      \<and> set (gpsPoints d) \<subseteq> set (gpsPoints d')
      \<and> (\<forall>p \<in> set (item_gpsPoints item). \<exists>row \<in> set (gpsPoints d').
           without_id (snd row) = without_id (with_activity_id a p))"
  proof (cases "length (item_gpsPoints item) > 0")
    case False
    with assms(1) d1 have "d' = d1" by (simp add: import_transaction_def)
    with False g1 show ?thesis by simp
  next
    case True
    with assms d1 have "gpsPoints_bulkAdd (map (with_activity_id a) (item_gpsPoints item)) d1 = Inr d'"
      by (simp add: import_transaction_def)
    from gpsPoints_bulkAdd_stored [OF this] g1 show ?thesis by simp
  qed
  then show "length (gpsPoints d') = length (gpsPoints d) + length (item_gpsPoints item)"
    and "set (gpsPoints d) \<subseteq> set (gpsPoints d')"
    and "\<forall>p \<in> set (item_gpsPoints item). \<exists>row \<in> set (gpsPoints d').
           without_id (snd row) = without_id (with_activity_id a p)"
    by simp_all
qed

lemma mislabelled_valid: "validateImportedData mislabelled_bundle"
  by (simp add: validateImportedData_spec spec_document_ok_def mislabelled_bundle_def
      mislabelled_item_def spec_item_ok_def truthy_string_def)

lemma import_item_rows:
  assumes "import_item env item (r, d) = (r', d')"
  shows "\<forall>row \<in> set (gpsPoints d'). row \<in> set (gpsPoints d) \<or>
           (\<exists>a. get_prop (item_activity item) ''id'' = Some a
               \<and> map_of (snd row) ''activity_id'' = Some a
               \<and> map_of (activities d') a \<noteq> None)"
  using assms
proof (cases rule: import_item_cases)
  case (failed e)
  then show ?thesis by simp
next
  case (skipped existing)
  then show ?thesis by simp
next
  case imported
  from import_transaction_Inr [OF imported(2)] obtain a props where
    a: "item_activity item = JObj props" "map_of props ''id'' = Some a"
    "map_of (activities d) a = None" "activities d' = insert_row a props (activities d)"
    "\<forall>row \<in> set (gpsPoints d'). row \<in> set (gpsPoints d) \<or>
       map_of (snd row) ''activity_id'' = Some a"
    by blast
  then have "get_prop (item_activity item) ''id'' = Some a" "map_of (activities d') a \<noteq> None"
    by (simp_all add: map_of_insert_row)
  with a(5) show ?thesis by blast
qed

lemma fold_import_item_rows:
  "fold (import_item env) items (r, d) = (r', d') \<Longrightarrow>
   \<forall>row \<in> set (gpsPoints d'). row \<in> set (gpsPoints d) \<or>
     (\<exists>item \<in> set items. \<exists>a. get_prop (item_activity item) ''id'' = Some a
         \<and> map_of (snd row) ''activity_id'' = Some a
         \<and> map_of (activities d') a \<noteq> None)"
proof (induction items arbitrary: r d)
  case Nil
  then show ?case by simp
next
  case (Cons item items)
  obtain r1 d1 where s: "import_item env item (r, d) = (r1, d1)"
    by (cases "import_item env item (r, d)")
  with Cons.prems have f: "fold (import_item env) items (r1, d1) = (r', d')" by simp
  show ?case
  proof
    fix row assume row: "row \<in> set (gpsPoints d')"
    with Cons.IH [OF f] consider
      (old) "row \<in> set (gpsPoints d1)"
    | (new) "\<exists>item \<in> set items. \<exists>a. get_prop (item_activity item) ''id'' = Some a
         \<and> map_of (snd row) ''activity_id'' = Some a \<and> map_of (activities d') a \<noteq> None"
      by blast
    then show "row \<in> set (gpsPoints d) \<or>
     (\<exists>item \<in> set (item # items). \<exists>a. get_prop (item_activity item) ''id'' = Some a
         \<and> map_of (snd row) ''activity_id'' = Some a
         \<and> map_of (activities d') a \<noteq> None)"
    proof cases
      case old
      with import_item_rows [OF s] consider "row \<in> set (gpsPoints d)"
        | a where "get_prop (item_activity item) ''id'' = Some a"
            "map_of (snd row) ''activity_id'' = Some a" "map_of (activities d1) a \<noteq> None"
        by blast
      then show ?thesis
      proof cases
        case 1
        then show ?thesis by simp
      next
        case 2
        from 2(3) obtain v where "map_of (activities d1) a = Some v" by blast
        from fold_import_item_keeps [OF f this] 2 show ?thesis by auto
      qed
    next
      case new
      then show ?thesis by auto
    qed
  qed
qed

text \<open>
  Claim C10. A successful transaction of the import loop has stored the item's activity
  and, for each of the item's points, one row that is the point with its
  \<open>activity_id\<close> overwritten by the activity's \<open>id\<close> (up to the key \<open>id\<close> that
  the store assigns); no other row is added, and every added row carries the
  activity's \<open>id\<close> as \<open>activity_id\<close>, whatever the point carried in the file. A
  failed transaction leaves the store as it was. Hence, if every stored point refers to
  a stored activity before \<open>importActivities\<close>, so it does after. The loop body runs
  exactly that transaction: for an item whose \<open>id\<close> is not in the store and whose
  transaction succeeds, \<open>import_item\<close> returns the transaction's store and counts one
  more imported activity. For a parsed, valid document \<open>importActivities\<close> is the loop
  over the document's items, and every GPS row of its final store is a row of the
  initial store or carries as \<open>activity_id\<close> the \<open>id\<close> of one of the document's
  activities, which is then in the store.
\<close>

theorem import_points_refer_to_activity:
  "(import_transaction item d = Inr d' \<longrightarrow>
      (\<exists>a. get_prop (item_activity item) ''id'' = Some a
         \<and> map_of (activities d') a \<noteq> None
         \<and> length (gpsPoints d') = length (gpsPoints d) + length (item_gpsPoints item)
         \<and> (\<forall>p \<in> set (item_gpsPoints item). \<exists>row \<in> set (gpsPoints d').
               without_id (snd row) = without_id (with_activity_id a p))
         \<and> (\<forall>row \<in> set (gpsPoints d'). row \<in> set (gpsPoints d) \<or>
               map_of (snd row) ''activity_id'' = Some a)))
   \<and> (import_transaction item d = Inl e \<longrightarrow> snd (import_item env item (r, d)) = d)
   \<and> (refs_ok d \<longrightarrow> refs_ok (snd (importActivities env text d)))
   \<and> (activities_get (get_prop (item_activity item) ''id'') d = Inr None
        \<and> import_transaction item d = Inr d' \<longrightarrow>
      import_item env item (r, d) = (r\<lparr>imported := imported r + 1\<rparr>, d'))
   \<and> (JSON_parse env text = Some data \<and> validateImportedData data \<longrightarrow>
      importActivities env text d =
        (case fold (import_item env) (data_activities data)
               (\<lparr>success = False, imported = 0, skipped = 0, errors = []\<rparr>, d) of
           (r', d'') \<Rightarrow> (r'\<lparr>success := (length (errors r') = 0 \<or> imported r' > 0)\<rparr>, d''))
      \<and> (\<forall>row \<in> set (gpsPoints (snd (importActivities env text d))).
            row \<in> set (gpsPoints d) \<or>
            (\<exists>item \<in> set (data_activities data). \<exists>a.
                get_prop (item_activity item) ''id'' = Some a
              \<and> map_of (snd row) ''activity_id'' = Some a
              \<and> map_of (activities (snd (importActivities env text d))) a \<noteq> None)))"
proof (intro conjI impI)
  assume t: "import_transaction item d = Inr d'"
  from import_transaction_Inr [OF t] obtain a props where
    a: "item_activity item = JObj props" "map_of props ''id'' = Some a"
    "map_of (activities d) a = None" "activities d' = insert_row a props (activities d)"
    "\<forall>row \<in> set (gpsPoints d'). row \<in> set (gpsPoints d) \<or>
       map_of (snd row) ''activity_id'' = Some a"
    by blast
  then have id: "get_prop (item_activity item) ''id'' = Some a" by simp
  from import_transaction_stored [OF t id] a id
  show "\<exists>a. get_prop (item_activity item) ''id'' = Some a
         \<and> map_of (activities d') a \<noteq> None
         \<and> length (gpsPoints d') = length (gpsPoints d) + length (item_gpsPoints item)
         \<and> (\<forall>p \<in> set (item_gpsPoints item). \<exists>row \<in> set (gpsPoints d').
               without_id (snd row) = without_id (with_activity_id a p))
         \<and> (\<forall>row \<in> set (gpsPoints d'). row \<in> set (gpsPoints d) \<or>
               map_of (snd row) ''activity_id'' = Some a)"
    by (auto simp: map_of_insert_row)
next
  assume "import_transaction item d = Inl e"
  then show "snd (import_item env item (r, d)) = d"
    by (simp add: import_item_def split: sum.splits option.splits)
next
  assume "refs_ok d"
  then show "refs_ok (snd (importActivities env text d))"
    by (rule importActivities_refs_ok)
next
  assume "activities_get (get_prop (item_activity item) ''id'') d = Inr None
        \<and> import_transaction item d = Inr d'"
  then show "import_item env item (r, d) = (r\<lparr>imported := imported r + 1\<rparr>, d')"
    by (simp add: import_item_def)
next
  assume v: "JSON_parse env text = Some data \<and> validateImportedData data"
  then show "importActivities env text d =
        (case fold (import_item env) (data_activities data)
               (\<lparr>success = False, imported = 0, skipped = 0, errors = []\<rparr>, d) of
           (r', d'') \<Rightarrow> (r'\<lparr>success := (length (errors r') = 0 \<or> imported r' > 0)\<rparr>, d''))"
    by (simp add: importActivities_def)
next
  assume v: "JSON_parse env text = Some data \<and> validateImportedData data"
  obtain r' d'' where f: "fold (import_item env) (data_activities data)
            (\<lparr>success = False, imported = 0, skipped = 0, errors = []\<rparr>, d) = (r', d'')"
    by (cases "fold (import_item env) (data_activities data)
            (\<lparr>success = False, imported = 0, skipped = 0, errors = []\<rparr>, d)")
  from v have "importActivities env text d =
     (case fold (import_item env) (data_activities data)
            (\<lparr>success = False, imported = 0, skipped = 0, errors = []\<rparr>, d) of
        (r', d') \<Rightarrow> (r'\<lparr>success := (errors r' = [] \<or> imported r' > 0)\<rparr>, d'))"
    by (simp add: importActivities_valid)
  with f have s: "snd (importActivities env text d) = d''" by simp
  from fold_import_item_rows [OF f]
  show "\<forall>row \<in> set (gpsPoints (snd (importActivities env text d))).
            row \<in> set (gpsPoints d) \<or>
            (\<exists>item \<in> set (data_activities data). \<exists>a.
                get_prop (item_activity item) ''id'' = Some a
              \<and> map_of (snd row) ''activity_id'' = Some a
              \<and> map_of (activities (snd (importActivities env text d))) a \<noteq> None)"
    unfolding s .
qed

text \<open>
  The hypotheses at concrete inputs: an item whose points name another activity or
  none, imported into the empty store by the transaction, by the loop body and by
  \<open>importActivities\<close>, with the rows it leaves; and an item whose transaction fails
  on a key clash.
\<close>

theorem import_points_refer_to_activity_witness:
  "import_transaction mislabelled_item empty_db = Inr mislabelled_db
   \<and> (\<exists>a. get_prop (item_activity mislabelled_item) ''id'' = Some a
         \<and> map_of (activities mislabelled_db) a \<noteq> None
         \<and> length (gpsPoints mislabelled_db) =
             length (gpsPoints empty_db) + length (item_gpsPoints mislabelled_item)
         \<and> (\<forall>p \<in> set (item_gpsPoints mislabelled_item). \<exists>row \<in> set (gpsPoints mislabelled_db).
               without_id (snd row) = without_id (with_activity_id a p))
         \<and> (\<forall>row \<in> set (gpsPoints mislabelled_db). row \<in> set (gpsPoints empty_db) \<or>
               map_of (snd row) ''activity_id'' = Some a))
   \<and> import_transaction clashing_item empty_db = Inl ConstraintError
   \<and> snd (import_item (platform_with ''file'' mislabelled_bundle) clashing_item
            (\<lparr>success = False, imported = 0, skipped = 0, errors = []\<rparr>, empty_db)) = empty_db
   \<and> refs_ok empty_db
   \<and> refs_ok (snd (importActivities (platform_with ''file'' mislabelled_bundle) ''file'' empty_db))
   \<and> activities_get (get_prop (item_activity mislabelled_item) ''id'') empty_db = Inr None
   \<and> import_item (platform_with ''file'' mislabelled_bundle) mislabelled_item
        (\<lparr>success = False, imported = 0, skipped = 0, errors = []\<rparr>, empty_db) =
      (\<lparr>success = False, imported = 1, skipped = 0, errors = []\<rparr>, mislabelled_db)
   \<and> JSON_parse (platform_with ''file'' mislabelled_bundle) ''file'' = Some mislabelled_bundle
   \<and> validateImportedData mislabelled_bundle
   \<and> importActivities (platform_with ''file'' mislabelled_bundle) ''file'' empty_db =
        (\<lparr>success = True, imported = 1, skipped = 0, errors = []\<rparr>, mislabelled_db)
   \<and> map (\<lambda>row. map_of (snd row) ''activity_id'') (gpsPoints mislabelled_db) =
        [get_prop (item_activity mislabelled_item) ''id'',
         get_prop (item_activity mislabelled_item) ''id'']"
proof -
  have r: "refs_ok empty_db" by (simp add: refs_ok_def empty_db_def)
  have g: "activities_get (get_prop (item_activity mislabelled_item) ''id'') empty_db = Inr None"
    by (simp add: activities_get_def item_activity_def mislabelled_item_def empty_db_def)
  have p: "JSON_parse (platform_with ''file'' mislabelled_bundle) ''file'' = Some mislabelled_bundle"
    by (simp add: platform_with_def)
  have items: "data_activities mislabelled_bundle = [mislabelled_item]"
    by (simp add: data_activities_def mislabelled_bundle_def)
  have rows: "map (\<lambda>row. map_of (snd row) ''activity_id'') (gpsPoints mislabelled_db) =
        [get_prop (item_activity mislabelled_item) ''id'',
         get_prop (item_activity mislabelled_item) ''id'']"
    by (simp add: mislabelled_db_def mislabelled_item_def item_activity_def)
  note c10 = import_points_refer_to_activity
             [of mislabelled_item empty_db mislabelled_db ConstraintError
                "platform_with ''file'' mislabelled_bundle"
                "\<lparr>success = False, imported = 0, skipped = 0, errors = []\<rparr>" "''file''"
                mislabelled_bundle]
  note c10' = import_points_refer_to_activity
             [of clashing_item empty_db mislabelled_db ConstraintError
                "platform_with ''file'' mislabelled_bundle"
                "\<lparr>success = False, imported = 0, skipped = 0, errors = []\<rparr>" "''file''"
                mislabelled_bundle]
  from c10 mislabelled_transaction have a: "\<exists>a. get_prop (item_activity mislabelled_item) ''id'' = Some a
         \<and> map_of (activities mislabelled_db) a \<noteq> None
         \<and> length (gpsPoints mislabelled_db) =
             length (gpsPoints empty_db) + length (item_gpsPoints mislabelled_item)
         \<and> (\<forall>p \<in> set (item_gpsPoints mislabelled_item). \<exists>row \<in> set (gpsPoints mislabelled_db).
               without_id (snd row) = without_id (with_activity_id a p))
         \<and> (\<forall>row \<in> set (gpsPoints mislabelled_db). row \<in> set (gpsPoints empty_db) \<or>
               map_of (snd row) ''activity_id'' = Some a)"
    by blast
  from c10' clashing_transaction
  have b: "snd (import_item (platform_with ''file'' mislabelled_bundle) clashing_item
            (\<lparr>success = False, imported = 0, skipped = 0, errors = []\<rparr>, empty_db)) = empty_db"
    by blast
  from c10 r
  have c: "refs_ok (snd (importActivities (platform_with ''file'' mislabelled_bundle) ''file'' empty_db))"
    by blast
  from c10 g mislabelled_transaction
  have d: "import_item (platform_with ''file'' mislabelled_bundle) mislabelled_item
        (\<lparr>success = False, imported = 0, skipped = 0, errors = []\<rparr>, empty_db) =
      (\<lparr>success = False, imported = 1, skipped = 0, errors = []\<rparr>, mislabelled_db)"
    by simp
  from c10 p mislabelled_valid
  have "importActivities (platform_with ''file'' mislabelled_bundle) ''file'' empty_db =
        (case fold (import_item (platform_with ''file'' mislabelled_bundle))
               (data_activities mislabelled_bundle)
               (\<lparr>success = False, imported = 0, skipped = 0, errors = []\<rparr>, empty_db) of
           (r', d'') \<Rightarrow> (r'\<lparr>success := (length (errors r') = 0 \<or> imported r' > 0)\<rparr>, d''))"
    by blast
  with items d
  have e: "importActivities (platform_with ''file'' mislabelled_bundle) ''file'' empty_db =
        (\<lparr>success = True, imported = 1, skipped = 0, errors = []\<rparr>, mislabelled_db)"
    by simp
  from a b c d e r g p rows mislabelled_valid mislabelled_transaction clashing_transaction
  show ?thesis
    by blast
qed

section \<open>Skipping, success and a second import\<close>

lemma fold_import_item_all_existing:
  "\<forall>item \<in> set items. \<exists>existing.
      activities_get (get_prop (item_activity item) ''id'') d = Inr (Some existing) \<Longrightarrow>
   fold (import_item env) items (r, d) = (r\<lparr>skipped := skipped r + length items\<rparr>, d)"
proof (induction items arbitrary: r)
  case Nil
  then show ?case by simp
next
  case (Cons item items)
  then obtain existing where
    "activities_get (get_prop (item_activity item) ''id'') d = Inr (Some existing)"
    by auto
  then have "import_item env item (r, d) = (r\<lparr>skipped := skipped r + 1\<rparr>, d)"
    by (rule import_item_existing)
  with Cons show ?case by simp
qed

lemma import_item_no_error_exists:
  assumes "import_item env item (r, d) = (r', d')" "errors r' = errors r"
  shows "\<exists>existing. activities_get (get_prop (item_activity item) ''id'') d' = Inr (Some existing)"
  using assms(1)
proof (cases rule: import_item_cases)
  case (failed e)
  with assms(2) show ?thesis by simp
next
  case (skipped existing)
  then show ?thesis by simp
next
  case imported
  from import_transaction_Inr [OF imported(2)] obtain a props where
    "item_activity item = JObj props" "map_of props ''id'' = Some a" "valid_key a"
    "map_of (activities d) a = None" "activities d' = insert_row a props (activities d)"
    by blast
  then show ?thesis
    by (simp add: activities_get_def map_of_insert_row)
qed

lemma activities_get_keeps:
  assumes "activities_get key d = Inr (Some existing)"
    and "\<And>k v. map_of (activities d) k = Some v \<Longrightarrow> map_of (activities d') k = Some v"
  shows "activities_get key d' = Inr (Some existing)"
  using assms by (auto simp: activities_get_def split: option.splits if_splits)

lemma fold_import_item_no_error_exists:
  "fold (import_item env) items (r, d) = (r', d') \<Longrightarrow> errors r' = errors r \<Longrightarrow>
   \<forall>item \<in> set items. \<exists>existing.
      activities_get (get_prop (item_activity item) ''id'') d' = Inr (Some existing)"
proof (induction items arbitrary: r d)
  case Nil
  then show ?case by simp
next
  case (Cons item items)
  obtain r1 d1 where s: "import_item env item (r, d) = (r1, d1)"
    by (cases "import_item env item (r, d)")
  with Cons.prems have f: "fold (import_item env) items (r1, d1) = (r', d')" by simp
  from fold_import_item_errors [OF f] obtain es where es: "errors r' = errors r1 @ es" by blast
  from fold_import_item_errors [of env "[item]" r d r1 d1] s
  obtain es1 where es1: "errors r1 = errors r @ es1" by auto
  from es es1 Cons.prems(2) have same: "errors r1 = errors r" "errors r' = errors r1" by auto
  from import_item_no_error_exists [OF s same(1)] obtain existing where
    "activities_get (get_prop (item_activity item) ''id'') d1 = Inr (Some existing)" by blast
  then have "activities_get (get_prop (item_activity item) ''id'') d' = Inr (Some existing)"
    by (rule activities_get_keeps) (rule fold_import_item_keeps [OF f])
  with Cons.IH [OF f same(2)] show ?case by auto
qed

lemma mislabelled_first_import:
  "importActivities (platform_with ''file'' mislabelled_bundle) ''file'' empty_db =
     (\<lparr>success = True, imported = 1, skipped = 0, errors = []\<rparr>, mislabelled_db)"
proof -
  have p: "JSON_parse (platform_with ''file'' mislabelled_bundle) ''file'' = Some mislabelled_bundle"
    by (simp add: platform_with_def)
  have g: "activities_get (get_prop (item_activity mislabelled_item) ''id'') empty_db = Inr None"
    by (simp add: activities_get_def item_activity_def mislabelled_item_def empty_db_def)
  show ?thesis
    unfolding importActivities_valid [OF p mislabelled_valid]
    by (simp add: data_activities_def mislabelled_bundle_def import_item_def g
        mislabelled_transaction)
qed

text \<open>
  Claim C3, as amended. For every valid bundle: an item whose activity id already exists
  in the store is counted as skipped and neither changes the store nor adds an error;
  the success flag is true exactly when the error list is empty or at least one
  activity was imported; and when the first import of the bundle reported no error,
  importing the same bundle again yields imported 0, skipped N (the bundle size),
  success true, no error and an unchanged store.
\<close>

theorem importActivities_skip_success_reimport:
  assumes "JSON_parse env text = Some data" and "validateImportedData data"
  shows "((\<exists>existing. activities_get (get_prop (item_activity item) ''id'') d0 = Inr (Some existing)) \<longrightarrow>
            import_item env item (r, d0) = (r\<lparr>skipped := skipped r + 1\<rparr>, d0))
     \<and> success (fst (importActivities env text d)) =
          (errors (fst (importActivities env text d)) = [] \<or>
           imported (fst (importActivities env text d)) > 0)
     \<and> (errors (fst (importActivities env text d)) = [] \<longrightarrow>
          importActivities env text (snd (importActivities env text d)) =
            (\<lparr>success = True, imported = 0, skipped = length (data_activities data), errors = []\<rparr>,
             snd (importActivities env text d)))"
proof (intro conjI impI)
  assume "\<exists>existing. activities_get (get_prop (item_activity item) ''id'') d0 = Inr (Some existing)"
  then show "import_item env item (r, d0) = (r\<lparr>skipped := skipped r + 1\<rparr>, d0)"
    by (auto simp: import_item_existing)
next
  let ?r0 = "\<lparr>success = False, imported = 0, skipped = 0, errors = []\<rparr>"
  obtain r1 d1 where f: "fold (import_item env) (data_activities data) (?r0, d) = (r1, d1)"
    by (cases "fold (import_item env) (data_activities data) (?r0, d)")
  have run1: "importActivities env text d = (r1\<lparr>success := (errors r1 = [] \<or> imported r1 > 0)\<rparr>, d1)"
    using assms f by (simp add: importActivities_valid)
  show "success (fst (importActivities env text d)) =
          (errors (fst (importActivities env text d)) = [] \<or>
           imported (fst (importActivities env text d)) > 0)"
    by (simp add: run1)
  assume "errors (fst (importActivities env text d)) = []"
  then have "errors r1 = errors ?r0" by (simp add: run1)
  from fold_import_item_no_error_exists [OF f this]
  have "fold (import_item env) (data_activities data) (?r0, d1) =
          (?r0\<lparr>skipped := skipped ?r0 + length (data_activities data)\<rparr>, d1)"
    by (rule fold_import_item_all_existing)
  then show "importActivities env text (snd (importActivities env text d)) =
            (\<lparr>success = True, imported = 0, skipped = length (data_activities data), errors = []\<rparr>,
             snd (importActivities env text d))"
    using assms by (simp add: importActivities_valid run1)
qed

text \<open>The hypotheses at the bundle of one activity with two mislabelled points.\<close>

theorem importActivities_skip_success_reimport_witness:
  "JSON_parse (platform_with ''file'' mislabelled_bundle) ''file'' = Some mislabelled_bundle
   \<and> validateImportedData mislabelled_bundle
   \<and> (\<exists>existing. activities_get (get_prop (item_activity mislabelled_item) ''id'') mislabelled_db =
         Inr (Some existing))
   \<and> import_item (platform_with ''file'' mislabelled_bundle) mislabelled_item
        (\<lparr>success = False, imported = 0, skipped = 0, errors = []\<rparr>, mislabelled_db) =
        (\<lparr>success = False, imported = 0, skipped = 1, errors = []\<rparr>, mislabelled_db)
   \<and> errors (fst (importActivities (platform_with ''file'' mislabelled_bundle) ''file'' empty_db)) = []
   \<and> importActivities (platform_with ''file'' mislabelled_bundle) ''file'' mislabelled_db =
        (\<lparr>success = True, imported = 0, skipped = 1, errors = []\<rparr>, mislabelled_db)"
proof -
  have p: "JSON_parse (platform_with ''file'' mislabelled_bundle) ''file'' = Some mislabelled_bundle"
    by (simp add: platform_with_def)
  have g: "activities_get (get_prop (item_activity mislabelled_item) ''id'') mislabelled_db =
      Inr (Some [(''id'', JStr ''a1''), (''sport_type'', JStr ''running''),
                 (''started_at'', JStr ''2024-05-01T10:00:00.000Z'')])"
    by (simp add: activities_get_def item_activity_def mislabelled_item_def mislabelled_db_def)
  have n: "length (data_activities mislabelled_bundle) = 1"
    by (simp add: data_activities_def mislabelled_bundle_def)
  show ?thesis
    using p mislabelled_valid g n mislabelled_first_import
      importActivities_skip_success_reimport [OF p mislabelled_valid, of mislabelled_item mislabelled_db
            "\<lparr>success = False, imported = 0, skipped = 0, errors = []\<rparr>" empty_db]
    by simp
qed

text \<open>
  Claim C3 as stated fails without the condition on the first import: a bundle that
  passes validation and whose two points carry the same explicit \<open>id\<close> is rejected by
  the store in both runs (the second \<open>add\<close> of the transaction meets a taken key), so
  the second run reports skipped 0, not 1, and success false.
\<close>

theorem second_import_of_failed_bundle:
  "validateImportedData clashing_bundle
   \<and> JSON_parse (platform_with ''file'' clashing_bundle) ''file'' = Some clashing_bundle
   \<and> length (data_activities clashing_bundle) = 1
   \<and> importActivities (platform_with ''file'' clashing_bundle) ''file'' empty_db =
       (\<lparr>success = False, imported = 0, skipped = 0,
         errors = [''Failed to import activity \"undefined\": ConstraintError'']\<rparr>, empty_db)
   \<and> importActivities (platform_with ''file'' clashing_bundle) ''file''
        (snd (importActivities (platform_with ''file'' clashing_bundle) ''file'' empty_db)) =
       (\<lparr>success = False, imported = 0, skipped = 0,
         errors = [''Failed to import activity \"undefined\": ConstraintError'']\<rparr>, empty_db)"
proof -
  have v: "validateImportedData clashing_bundle"
    by (simp add: validateImportedData_spec spec_document_ok_def clashing_bundle_def
        clashing_item_def spec_item_ok_def truthy_string_def)
  have p: "JSON_parse (platform_with ''file'' clashing_bundle) ''file'' = Some clashing_bundle"
    by (simp add: platform_with_def)
  have n: "data_activities clashing_bundle = [clashing_item]"
    by (simp add: data_activities_def clashing_bundle_def)
  have g: "activities_get (get_prop (item_activity clashing_item) ''id'') empty_db = Inr None"
    by (simp add: activities_get_def item_activity_def clashing_item_def empty_db_def)
  have m: "failed_message (platform_with ''file'' clashing_bundle) clashing_item ConstraintError =
      ''Failed to import activity \"undefined\": ConstraintError''"
    by (simp add: failed_message_def platform_with_def item_activity_def clashing_item_def)
  have run: "importActivities (platform_with ''file'' clashing_bundle) ''file'' empty_db =
       (\<lparr>success = False, imported = 0, skipped = 0,
         errors = [''Failed to import activity \"undefined\": ConstraintError'']\<rparr>, empty_db)"
    unfolding importActivities_valid [OF p v] n
    by (simp add: import_item_def g clashing_transaction m)
  show ?thesis
    using v p n run by simp
qed

section \<open>The import keeps the invariant of the store\<close>

text \<open>
  The fresh database satisfies \<open>store_wf\<close>, and \<open>importActivities\<close> keeps it:
  what validation checks of an activity is what \<open>store_wf\<close> asks of a row.
\<close>

lemma truthy_string_JStr: "truthy_string (Some k) \<longleftrightarrow> (\<exists>s. k = JStr s \<and> s \<noteq> [])"
  by (cases k) (simp_all add: truthy_string_def)

lemma insert_row_sorted:
  assumes "sorted_wrt (\<lambda>x y. \<not> key_less (fst y) (fst x)) rows"
    and "\<forall>row \<in> set rows. \<exists>s. fst row = JStr s"
  shows "sorted_wrt (\<lambda>x y. \<not> key_less (fst y) (fst x)) (insert_row (JStr a) v rows)"
  using assms
proof (induction rows)
  case Nil
  then show ?case by simp
next
  case (Cons row rows)
  obtain k' v' where row: "row = (k', v')" by (cases row)
  from Cons.prems(2) row obtain b where b: "k' = JStr b" by auto
  show ?case
  proof (cases "a < b")
    case True
    have "\<not> key_less (fst y) (JStr a)" if "y \<in> set rows" for y
    proof -
      from Cons.prems(2) that obtain c where c: "fst y = JStr c" by auto
      from Cons.prems(1) that row b c have "\<not> c < b" by auto
      with True c show ?thesis by auto
    qed
    with True Cons.prems(1) row b show ?thesis by auto
  next
    case False
    with Cons row b show ?thesis
      by (auto simp: set_insert_row)
  qed
qed

lemma import_transaction_store_wf:
  assumes t: "import_transaction item d = Inr d'" and v: "validate_item item" and wf: "store_wf d"
  shows "store_wf d'"
proof -
  from import_transaction_Inr [OF t] obtain a props where
    act: "item_activity item = JObj props" and id: "map_of props ''id'' = Some a" and
    none: "map_of (activities d) a = None" and
    acts: "activities d' = insert_row a props (activities d)"
    by blast
  from v act id have ts: "truthy_string (Some a)" "truthy_string (map_of props ''sport_type'')"
    "truthy_string (map_of props ''started_at'')"
    by (auto simp: validate_item_spec spec_item_ok_def item_activity_def
        split: option.splits json.splits)
  then obtain s where s: "a = JStr s" by (auto simp: truthy_string_JStr)
  have keys: "\<forall>row \<in> set (activities d). \<exists>s. fst row = JStr s"
    using wf by (auto simp: store_wf_def list_all_iff truthy_string_JStr)
  have "sorted_wrt (\<lambda>x y. \<not> key_less (fst y) (fst x)) (activities d')"
    unfolding acts s using wf keys by (intro insert_row_sorted) (simp_all add: store_wf_def)
  moreover have "distinct (map fst (activities d'))"
  proof -
    have "a \<notin> fst ` set (activities d)" using none by (simp add: map_of_eq_None_iff)
    moreover have "distinct (map fst (insert_row k w rows))"
      if "distinct (map fst rows)" "k \<notin> fst ` set rows" for k w rows
      using that by (induction rows) (auto simp: set_insert_row)
    ultimately show ?thesis using wf by (simp add: acts store_wf_def)
  qed
  moreover have "list_all (\<lambda>row. truthy_string (Some (fst row))
                    \<and> map_of (snd row) ''id'' = Some (fst row)
                    \<and> truthy_string (map_of (snd row) ''sport_type'')
                    \<and> truthy_string (map_of (snd row) ''started_at'')) (activities d')"
    using wf ts id by (auto simp: acts store_wf_def list_all_iff set_insert_row)
  moreover have "refs_ok d'"
    using t wf by (auto intro: import_transaction_refs_ok simp: store_wf_def)
  ultimately show ?thesis by (simp add: store_wf_def)
qed

lemma import_item_store_wf:
  assumes "import_item env item (r, d) = (r', d')" "validate_item item" "store_wf d"
  shows "store_wf d'"
  using assms by (cases rule: import_item_cases) (auto intro: import_transaction_store_wf)

lemma fold_import_item_store_wf:
  "fold (import_item env) items (r, d) = (r', d') \<Longrightarrow> list_all validate_item items \<Longrightarrow>
   store_wf d \<Longrightarrow> store_wf d'"
proof (induction items arbitrary: r d)
  case Nil
  then show ?case by simp
next
  case (Cons item items)
  obtain r1 d1 where s: "import_item env item (r, d) = (r1, d1)"
    by (cases "import_item env item (r, d)")
  with Cons.prems have f: "fold (import_item env) items (r1, d1) = (r', d')" by simp
  from Cons.prems have "validate_item item" "list_all validate_item items" by simp_all
  from Cons.IH [OF f this(2) import_item_store_wf [OF s this(1) Cons.prems(3)]] show ?case .
qed

lemma validateImportedData_items:
  "validateImportedData data \<Longrightarrow> list_all validate_item (data_activities data)"
  by (cases data)
    (auto simp: validateImportedData_def data_activities_def validate_items_list_all
      not_an_object_iff split: option.splits json.splits if_splits)

lemma empty_db_store_wf: "store_wf empty_db"
  by (simp add: store_wf_def empty_db_def refs_ok_def)

lemma importActivities_store_wf:
  assumes "store_wf d"
  shows "store_wf (snd (importActivities env text d))"
proof (cases "JSON_parse env text")
  case None
  with assms show ?thesis by (simp add: importActivities_def)
next
  case (Some data)
  show ?thesis
  proof (cases "validateImportedData data")
    case False
    with Some assms show ?thesis by (simp add: importActivities_def)
  next
    case True
    obtain r' d' where f: "fold (import_item env) (data_activities data)
            (\<lparr>success = False, imported = 0, skipped = 0, errors = []\<rparr>, d) = (r', d')"
      by (cases "fold (import_item env) (data_activities data)
            (\<lparr>success = False, imported = 0, skipped = 0, errors = []\<rparr>, d)")
    from fold_import_item_store_wf [OF f validateImportedData_items [OF True] assms]
    show ?thesis by (simp add: importActivities_valid [OF Some True] f)
  qed
qed

section \<open>Export and import round trip\<close>

























end
